theory Spec2Isabelle
  imports Main
begin

section \<open>JavaScript values\<close>

text \<open>
  The values the managers handle. \<open>Obj\<close> and \<open>Arr\<close> are plain data (the raw JSON
  payloads of the remote API, option bags), \<open>Ref\<close> is a reference to a class instance
  held in the store: two references are the same instance exactly when their addresses
  are equal. Numbers are integers (\<open>NaN\<close> and fractions do not occur in the code
  modelled here).
\<close>

datatype jsval =
    Undefined
  | Null
  | Bool bool
  | Num int
  | Str string
  | Arr "jsval list"
  | Obj "(string \<times> jsval) list"
  | Ref nat

text \<open>Truthiness, as \<open>if (v)\<close> and \<open>!v\<close> test it.\<close>

fun truthy :: "jsval \<Rightarrow> bool" where
  "truthy Undefined = False"
| "truthy Null = False"
| "truthy (Bool b) = b"
| "truthy (Num n) = (n \<noteq> 0)"
| "truthy (Str s) = (s \<noteq> [])"
| "truthy (Arr xs) = True"
| "truthy (Obj kvs) = True"
| "truthy (Ref r) = True"

text \<open>\<open>v === null || v === void 0\<close>, the test behind \<open>??\<close> and \<open>?.\<close>.\<close>

fun nullish :: "jsval \<Rightarrow> bool" where
  "nullish Undefined = True"
| "nullish Null = True"
| "nullish v = False"

text \<open>\<open>a ?? b\<close>.\<close>

definition coalesce :: "jsval \<Rightarrow> jsval \<Rightarrow> jsval" where
  "coalesce a b = (if nullish a then b else a)"

text \<open>
  Reading a property of a plain data value: a missing property reads \<open>undefined\<close>.
  (Reading a property of \<open>null\<close> or \<open>undefined\<close> throws; the callers below test
  \<open>nullish\<close> first wherever the source can reach that.)
\<close>

fun jsget :: "jsval \<Rightarrow> string \<Rightarrow> jsval" where
  "jsget (Obj kvs) k = (case map_of kvs k of Some v \<Rightarrow> v | None \<Rightarrow> Undefined)"
| "jsget v k = Undefined"

text \<open>\<open>k in v\<close> for a plain data object.\<close>

fun jshas :: "jsval \<Rightarrow> string \<Rightarrow> bool" where
  "jshas (Obj kvs) k = (map_of kvs k \<noteq> None)"
| "jshas v k = False"

text \<open>\<open>typeof v\<close>.\<close>

fun typeof :: "jsval \<Rightarrow> string" where
  "typeof Undefined = ''undefined''"
| "typeof Null = ''object''"
| "typeof (Bool b) = ''boolean''"
| "typeof (Num n) = ''number''"
| "typeof (Str s) = ''string''"
| "typeof (Arr xs) = ''object''"
| "typeof (Obj kvs) = ''object''"
| "typeof (Ref r) = ''object''"

section \<open>Errors, requests, the store\<close>

text \<open>
  \<open>LibTypeError\<close> and \<open>LibError\<close> are the library's own error classes
  (\<open>require('../errors')\<close>) with their message key and arguments;
  \<open>NativeTypeError\<close> is the \<open>TypeError\<close> the JavaScript runtime throws by itself
  (a property read or a call on \<open>undefined\<close> or \<open>null\<close>); \<open>RangeError\<close> is what
  \<open>Date.prototype.toISOString\<close> throws on an invalid date; \<open>RemoteFetchError\<close> is a
  failure of the transport.
\<close>

datatype error =
    LibTypeError string string string
  | LibError string
  | NativeTypeError
  | RangeError
  | RemoteFetchError

text \<open>A call of the REST transport: method, route segments, options.\<close>

datatype request = Request string "jsval list" jsval

text \<open>
  Calls into collaborators that are themselves managers of other classes
  (\<open>thread.members._add\<close>, \<open>thread.messages.add\<close>); they are recorded, with the
  instance they were made on.
\<close>

datatype call = MembersAdd jsval | MessagesAdd jsval

type_synonym fields = "string \<Rightarrow> jsval"

definition no_fields :: fields where
  "no_fields = (\<lambda>k. Undefined)"

text \<open>
  What running a constructor or a \<open>_patch\<close> method on an instance gives: the error it
  threw (if any), the instance's fields at that point, and the collaborator calls made.
\<close>

record presult =
  perr :: "error option"
  pfields :: fields
  pcalls :: "call list"

text \<open>
  The class a manager holds (\<open>this.holds\<close>): its constructor, called as
  \<open>new this.holds(this.client, data, ...extras)\<close>, and its \<open>_patch(data)\<close>.
\<close>

record eclass =
  construct :: "jsval \<Rightarrow> jsval list \<Rightarrow> presult"
  patch :: "fields \<Rightarrow> jsval \<Rightarrow> presult"

text \<open>
  A manager and the part of the client it touches: the store of instances (\<open>heap\<close>,
  with \<open>nxt\<close> the next unused address), the manager's cache (a \<open>Collection\<close>, that is
  a JavaScript \<open>Map\<close> from keys to instances), the requests issued so far and the
  collaborator calls made so far.
\<close>

record st =
  heap :: "nat \<Rightarrow> fields"
  nxt :: nat
  cache :: "jsval \<rightharpoonup> nat"
  sent :: "request list"
  calls :: "(nat \<times> call) list"

section \<open>CachedManager\<close>

text \<open>\<open>existing?._patch(data)\<close> on the instance at address \<open>r\<close>.\<close>

definition run_patch :: "eclass option \<Rightarrow> nat \<Rightarrow> jsval \<Rightarrow> st \<Rightarrow> error option \<times> st" where
  "run_patch holds r data s =
     (case holds of
        None \<Rightarrow> (Some NativeTypeError, s)
      | Some c \<Rightarrow>
          (let p = patch c (heap s r) data
           in (perr p,
               s\<lparr>heap := (heap s)(r := pfields p),
                 calls := calls s @ map (Pair r) (pcalls p)\<rparr>)))"

text \<open>
  \<open>this.holds ? new this.holds(this.client, data, ...extras) : data\<close>: the new entry
  gets the next address. Without a held class the entry is the data object itself,
  which enters the store with the payload's properties.
\<close>

definition new_entry :: "eclass option \<Rightarrow> jsval \<Rightarrow> jsval list \<Rightarrow> st \<Rightarrow> error option \<times> nat \<times> st" where
  "new_entry holds data extras s =
     (let r = nxt s in
      case holds of
        None \<Rightarrow> (None, r, s\<lparr>heap := (heap s)(r := jsget data), nxt := Suc r\<rparr>)
      | Some c \<Rightarrow>
          (let p = construct c data extras
           in (perr p, r,
               s\<lparr>heap := (heap s)(r := pfields p), nxt := Suc r,
                 calls := calls s @ map (Pair r) (pcalls p)\<rparr>)))"

text \<open>The default value of the parameter \<open>cache = true\<close>, then its test \<open>if (cache)\<close>.\<close>

definition cache_flag :: "jsval \<Rightarrow> bool" where
  "cache_flag c = (if c = Undefined then True else truthy c)"

text \<open>
  \<open>CachedManager._add(data, cache = true, { id, extras = [] } = {})\<close>. The result is
  the error thrown or the instance returned, with the state reached. The first
  statement reads \<open>data.id\<close> when no \<open>id\<close> is given, which throws on a payload
  that is \<open>null\<close> or \<open>undefined\<close>. The instances of the cache are instances of
  \<open>this.holds\<close>, so \<open>existing._patch\<close> is that class's method.
\<close>

definition CachedManager_add ::
  "eclass option \<Rightarrow> jsval \<Rightarrow> jsval \<Rightarrow> jsval \<Rightarrow> jsval list \<Rightarrow> st \<Rightarrow> (error + nat) \<times> st" where
  "CachedManager_add holds data cache_arg id_arg extras s =
     (if nullish id_arg \<and> nullish data then (Inl NativeTypeError, s)
      else
       (let existing = cache s (coalesce id_arg (jsget data ''id''));
            (e1, s1) = (case existing of
                          Some r \<Rightarrow> if cache_flag cache_arg then run_patch holds r data s
                                    else (None, s)
                        | None \<Rightarrow> (None, s))
        in case e1 of
             Some e \<Rightarrow> (Inl e, s1)
           | None \<Rightarrow>
              (case existing of
                 Some r \<Rightarrow> (Inr r, s1)
               | None \<Rightarrow>
                  (let (e2, entry, s2) = new_entry holds data extras s1
                   in case e2 of
                        Some e \<Rightarrow> (Inl e, s2)
                      | None \<Rightarrow>
                         (if cache_flag cache_arg
                          then (Inr entry,
                                s2\<lparr>cache := (cache s2)(coalesce id_arg (heap s2 entry ''id'') \<mapsto> entry)\<rparr>)
                          else (Inr entry, s2))))))"

text \<open>
  Modelled from the spec: the classes the managers hold (\<open>User\<close>, \<open>Invite\<close>,
  \<open>StageInstance\<close>) are not under src/. Section 3 of the spec describes an entity as
  a set of fields populated from the last-applied payload, mutated in place by a
  \<open>patch(rawPayload)\<close> that overwrites only the fields present in the payload.
\<close>

definition merge_fields :: "fields \<Rightarrow> jsval \<Rightarrow> fields" where
  "merge_fields f d = (\<lambda>k. if jshas d k then jsget d k else f k)"

definition Entity :: eclass where
  "Entity =
     \<lparr>construct = (\<lambda>d extras. \<lparr>perr = None, pfields = merge_fields no_fields d, pcalls = []\<rparr>),
      patch = (\<lambda>f d. \<lparr>perr = None, pfields = merge_fields f d, pcalls = []\<rparr>)\<rparr>"

section \<open>ThreadManager._add\<close>

text \<open>
  \<open>ThreadManager._add(thread)\<close>: the argument is a thread instance, not a payload.
\<close>

definition ThreadManager_add :: "nat \<Rightarrow> st \<Rightarrow> nat \<times> st" where
  "ThreadManager_add thread s =
     (case cache s (heap s thread ''id'') of
        Some existing \<Rightarrow> (existing, s)
      | None \<Rightarrow> (thread, s\<lparr>cache := (cache s)(heap s thread ''id'' \<mapsto> thread)\<rparr>))"

section \<open>StageInstanceManager\<close>

text \<open>
  Modelled from the spec: \<open>BaseManager.add\<close>, which \<open>StageInstanceManager\<close> inherits
  and calls as \<open>this.add(data)\<close>, is not under src/. Section 4.2 of the spec gives the
  add protocol of every manager; it is the one \<open>CachedManager._add\<close> implements.
\<close>

definition BaseManager_add ::
  "eclass option \<Rightarrow> jsval \<Rightarrow> jsval \<Rightarrow> jsval \<Rightarrow> jsval list \<Rightarrow> st \<Rightarrow> (error + nat) \<times> st" where
  "BaseManager_add = CachedManager_add"

text \<open>
  Modelled from the spec: \<open>Base._clone\<close> is not under src/. A clone is a new instance
  that starts with the fields of the original.
\<close>

definition clone_instance :: "nat \<Rightarrow> st \<Rightarrow> nat \<times> st" where
  "clone_instance r s = (nxt s, s\<lparr>heap := (heap s)(nxt s := heap s r), nxt := Suc (nxt s)\<rparr>)"

text \<open>
  What a stage-instance manager is built from and what it calls that is not under src/:
  the class it holds, \<open>this.guild.channels.resolveID\<close>, the table \<open>PrivacyLevels\<close> and
  the REST transport \<open>this.client.api\<close> (which answers a request with the parsed
  response or fails).
\<close>

record stage_env =
  se_holds :: "eclass option"
  se_resolveID :: "jsval \<Rightarrow> jsval"
  se_PrivacyLevels :: "jsval \<Rightarrow> jsval"
  se_api :: "request \<Rightarrow> error + jsval"

text \<open>
  \<open>if (privacyLevel) privacyLevel = typeof privacyLevel === 'number' ? privacyLevel :
  PrivacyLevels[privacyLevel]\<close>.
\<close>

definition privacy_level :: "(jsval \<Rightarrow> jsval) \<Rightarrow> jsval \<Rightarrow> jsval" where
  "privacy_level tbl pl =
     (if truthy pl then (if typeof pl = ''number'' then pl else tbl pl) else pl)"

text \<open>
  The two requests: \<open>this.client.api['stage-instances'].post({ data: { channel_id,
  topic, privacy_level } })\<close> and \<open>this.client.api('stage-instances',
  channelID).patch({ data: { topic, privacy_level } })\<close>.
\<close>

definition create_request :: "stage_env \<Rightarrow> jsval \<Rightarrow> jsval \<Rightarrow> jsval \<Rightarrow> request" where
  "create_request env channelID topic privacyLevel =
     Request ''post'' [Str ''stage-instances'']
       (Obj [(''data'', Obj [(''channel_id'', channelID), (''topic'', topic),
          (''privacy_level'', privacy_level (se_PrivacyLevels env) privacyLevel)])])"

definition edit_request :: "stage_env \<Rightarrow> jsval \<Rightarrow> jsval \<Rightarrow> jsval \<Rightarrow> request" where
  "edit_request env channelID topic privacyLevel =
     Request ''patch'' [Str ''stage-instances'', channelID]
       (Obj [(''data'', Obj [(''topic'', topic),
          (''privacy_level'', privacy_level (se_PrivacyLevels env) privacyLevel)])])"

text \<open>
  \<open>StageInstanceManager.create(options)\<close>. Destructuring \<open>options\<close> throws when it is
  \<open>null\<close> (whose \<open>typeof\<close> is \<open>'object'\<close>).
\<close>

definition StageInstanceManager_create :: "stage_env \<Rightarrow> jsval \<Rightarrow> st \<Rightarrow> (error + nat) \<times> st" where
  "StageInstanceManager_create env options s =
     (if typeof options \<noteq> ''object''
      then (Inl (LibTypeError ''INVALID_TYPE'' ''options'' ''object''), s)
      else if nullish options then (Inl NativeTypeError, s)
      else
       (let channel = jsget options ''channel'';
            topic = jsget options ''topic'';
            privacyLevel = jsget options ''privacyLevel'';
            channelID = se_resolveID env channel
        in if \<not> truthy channelID then (Inl (LibError ''STAGE_CHANNEL_RESOLVE''), s)
           else
            (let req = create_request env channelID topic privacyLevel;
                 s1 = s\<lparr>sent := sent s @ [req]\<rparr>
             in case se_api env req of
                  Inl e \<Rightarrow> (Inl e, s1)
                | Inr data \<Rightarrow> BaseManager_add (se_holds env) data Undefined Undefined [] s1)))"

text \<open>
  \<open>StageInstanceManager.edit(channel, options)\<close>. Here the channel is resolved before
  \<open>options\<close> is destructured.
\<close>

definition StageInstanceManager_edit ::
  "stage_env \<Rightarrow> jsval \<Rightarrow> jsval \<Rightarrow> st \<Rightarrow> (error + nat) \<times> st" where
  "StageInstanceManager_edit env channel options s =
     (if typeof options \<noteq> ''object''
      then (Inl (LibTypeError ''INVALID_TYPE'' ''options'' ''object''), s)
      else
       (let channelID = se_resolveID env channel
        in if \<not> truthy channelID then (Inl (LibError ''STAGE_CHANNEL_RESOLVE''), s)
           else if nullish options then (Inl NativeTypeError, s)
           else
            (let topic = jsget options ''topic'';
                 privacyLevel = jsget options ''privacyLevel'';
                 req = edit_request env channelID topic privacyLevel;
                 s1 = s\<lparr>sent := sent s @ [req]\<rparr>
             in case se_api env req of
                  Inl e \<Rightarrow> (Inl e, s1)
                | Inr data \<Rightarrow>
                   (if nullish data then (Inl NativeTypeError, s1)
                    else
                     (case cache s1 (jsget data ''id'') of
                        Some r \<Rightarrow>
                          (let (clone, s2) = clone_instance r s1;
                               (e, s3) = run_patch (se_holds env) clone data s2
                           in case e of Some err \<Rightarrow> (Inl err, s3) | None \<Rightarrow> (Inr clone, s3))
                      | None \<Rightarrow> BaseManager_add (se_holds env) data Undefined Undefined [] s1)))))"

section \<open>ReactionUserManager.remove\<close>

text \<open>\<open>a === b\<close>. Plain data values carry no identity here: two of them are never identical.\<close>

fun strict_eq :: "jsval \<Rightarrow> jsval \<Rightarrow> bool" where
  "strict_eq (Arr xs) b = False"
| "strict_eq (Obj kvs) b = False"
| "strict_eq a (Arr ys) = False"
| "strict_eq a (Obj kvs) = False"
| "strict_eq a b = (a = b)"

text \<open>
  The manager's reaction (returned by \<open>remove\<close>) with the ids the route is built from,
  \<open>this.client.user\<close> (\<open>null\<close> before login, else a user whose \<open>id\<close> is read), and
  what is not under src/: \<open>this.client.users.resolveId\<close> and the transport.
\<close>

record reaction_env =
  re_reaction :: jsval
  re_channel_id :: jsval
  re_message_id :: jsval
  re_emoji_identifier :: jsval
  re_client_user :: jsval
  re_resolveId :: "jsval \<Rightarrow> jsval"
  re_api :: "request \<Rightarrow> error + jsval"

text \<open>
  The request of \<open>remove\<close>:
  \<open>this.client.api.channels[message.channel.id].messages[message.id]
  .reactions[this.reaction.emoji.identifier][userId === this.client.user.id ? '@me' :
  userId].delete()\<close>.
\<close>

definition remove_request :: "reaction_env \<Rightarrow> jsval \<Rightarrow> request" where
  "remove_request env userId =
     Request ''delete''
       [Str ''channels'', re_channel_id env, Str ''messages'', re_message_id env,
        Str ''reactions'', re_emoji_identifier env,
        (if strict_eq userId (jsget (re_client_user env) ''id'') then Str ''@me'' else userId)]
       Undefined"

text \<open>
  \<open>ReactionUserManager.remove(user = this.client.user)\<close>. The route, with
  \<open>this.client.user.id\<close> in it, is evaluated before \<open>.delete()\<close> is called.
\<close>

definition ReactionUserManager_remove :: "reaction_env \<Rightarrow> jsval \<Rightarrow> st \<Rightarrow> (error + jsval) \<times> st" where
  "ReactionUserManager_remove env user_arg s =
     (let user = (if user_arg = Undefined then re_client_user env else user_arg);
          userId = re_resolveId env user
      in if \<not> truthy userId then (Inl (LibError ''REACTION_RESOLVE_USER''), s)
         else if nullish (re_client_user env) then (Inl NativeTypeError, s)
         else
          (let req = remove_request env userId;
               s1 = s\<lparr>sent := sent s @ [req]\<rparr>
           in case re_api env req of
                Inl e \<Rightarrow> (Inl e, s1)
              | Inr x \<Rightarrow> (Inr (re_reaction env), s1)))"

section \<open>GuildInviteManager\<close>

text \<open>
  What the invite manager is built from and what it calls that is not under src/: the
  class it holds (\<open>Invite\<close>), the guild (its \<open>id\<close> goes into the route, the guild
  itself into the constructor's extra arguments), \<open>DataResolver.resolveInviteCode\<close>,
  \<open>this.guild.channels.resolveId\<close> and the transport.
\<close>

record invite_env =
  ie_holds :: "eclass option"
  ie_guild :: jsval
  ie_guild_id :: jsval
  ie_resolveInviteCode :: "jsval \<Rightarrow> jsval"
  ie_resolveId :: "jsval \<Rightarrow> jsval"
  ie_api :: "request \<Rightarrow> error + jsval"

text \<open>\<open>fetch\<close> returns one invite or a collection of invites keyed by code.\<close>

datatype fetched = One nat | Many "jsval \<rightharpoonup> nat"

text \<open>
  \<open>_add(data, cache) { return super._add(data, cache, { id: data.code, extras:
  [this.guild] }); }\<close>
\<close>

definition GuildInviteManager_add :: "invite_env \<Rightarrow> jsval \<Rightarrow> jsval \<Rightarrow> st \<Rightarrow> (error + nat) \<times> st" where
  "GuildInviteManager_add env data cache_arg s =
     (if nullish data then (Inl NativeTypeError, s)
      else CachedManager_add (ie_holds env) data cache_arg (jsget data ''code'') [ie_guild env] s)"

text \<open>
  \<open>data.reduce((col, invite) => col.set(invite.code, this._add(invite, cache)), new
  Collection())\<close>: the loop of \<open>_fetchMany\<close> and \<open>_fetchChannelMany\<close>.
\<close>

fun add_invites ::
  "invite_env \<Rightarrow> jsval \<Rightarrow> jsval list \<Rightarrow> (jsval \<rightharpoonup> nat) \<Rightarrow> st \<Rightarrow> (error + (jsval \<rightharpoonup> nat)) \<times> st" where
  "add_invites env cache_arg [] col s = (Inr col, s)"
| "add_invites env cache_arg (invite # rest) col s =
     (case GuildInviteManager_add env invite cache_arg s of
        (Inl e, s1) \<Rightarrow> (Inl e, s1)
      | (Inr r, s1) \<Rightarrow> add_invites env cache_arg rest (col(jsget invite ''code'' \<mapsto> r)) s1)"

text \<open>The request of a listing, then the loop; \<open>data.reduce\<close> needs an array.\<close>

definition fetch_list ::
  "invite_env \<Rightarrow> jsval list \<Rightarrow> jsval \<Rightarrow> st \<Rightarrow> (error + (jsval \<rightharpoonup> nat)) \<times> st" where
  "fetch_list env route cache_arg s =
     (let req = Request ''get'' route Undefined;
          s1 = s\<lparr>sent := sent s @ [req]\<rparr>
      in case ie_api env req of
           Inl e \<Rightarrow> (Inl e, s1)
         | Inr (Arr invites) \<Rightarrow> add_invites env cache_arg invites Map.empty s1
         | Inr other \<Rightarrow> (Inl NativeTypeError, s1))"

definition fetchMany :: "invite_env \<Rightarrow> jsval \<Rightarrow> st \<Rightarrow> (error + (jsval \<rightharpoonup> nat)) \<times> st" where
  "fetchMany env cache_arg s =
     fetch_list env [Str ''guilds'', ie_guild_id env, Str ''invites''] cache_arg s"

definition fetchChannelMany ::
  "invite_env \<Rightarrow> jsval \<Rightarrow> jsval \<Rightarrow> st \<Rightarrow> (error + (jsval \<rightharpoonup> nat)) \<times> st" where
  "fetchChannelMany env channelId cache_arg s =
     fetch_list env [Str ''channels'', channelId, Str ''invites''] cache_arg s"

text \<open>\<open>_fetchSingle({ code, cache, force = false })\<close>.\<close>

definition fetchSingle ::
  "invite_env \<Rightarrow> jsval \<Rightarrow> jsval \<Rightarrow> jsval \<Rightarrow> st \<Rightarrow> (error + nat) \<times> st" where
  "fetchSingle env code cache_arg force s =
     (case (if \<not> truthy force then cache s code else None) of
        Some existing \<Rightarrow> (Inr existing, s)
      | None \<Rightarrow>
         (case fetchMany env cache_arg s of
            (Inl e, s1) \<Rightarrow> (Inl e, s1)
          | (Inr invites, s1) \<Rightarrow>
             (case invites code of
                None \<Rightarrow> (Inl (LibError ''INVITE_NOT_FOUND''), s1)
              | Some invite \<Rightarrow> (Inr invite, s1))))"

text \<open>
  \<open>'cache' in options\<close> throws on a primitive; an array or an instance has no such
  property.
\<close>

fun js_in :: "string \<Rightarrow> jsval \<Rightarrow> bool option" where
  "js_in k (Obj kvs) = Some (map_of kvs k \<noteq> None)"
| "js_in k (Arr xs) = Some False"
| "js_in k (Ref r) = Some False"
| "js_in k v = None"

definition lift_one :: "(error + nat) \<times> st \<Rightarrow> (error + fetched) \<times> st" where
  "lift_one x = (case x of (Inl e, s) \<Rightarrow> (Inl e, s) | (Inr r, s) \<Rightarrow> (Inr (One r), s))"

definition lift_many :: "(error + (jsval \<rightharpoonup> nat)) \<times> st \<Rightarrow> (error + fetched) \<times> st" where
  "lift_many x = (case x of (Inl e, s) \<Rightarrow> (Inl e, s) | (Inr m, s) \<Rightarrow> (Inr (Many m), s))"

text \<open>
  \<open>GuildInviteManager.fetch(options)\<close>. A rejected promise and a thrown error are both
  the error of the result.
\<close>

definition GuildInviteManager_fetch :: "invite_env \<Rightarrow> jsval \<Rightarrow> st \<Rightarrow> (error + fetched) \<times> st" where
  "GuildInviteManager_fetch env options s =
     (if \<not> truthy options then lift_many (fetchMany env Undefined s)
      else if typeof options = ''string'' then
        (let code = ie_resolveInviteCode env options
         in if \<not> truthy code then (Inl (LibError ''INVITE_RESOLVE_CODE''), s)
            else lift_one (fetchSingle env code (Bool True) Undefined s))
      else if \<not> truthy (jsget options ''code'') then
        (if truthy (jsget options ''channelId'') then
           (let cid = ie_resolveId env (jsget options ''channelId'')
            in if \<not> truthy cid then (Inl (LibError ''GUILD_CHANNEL_RESOLVE''), s)
               else lift_many (fetchChannelMany env cid (jsget options ''cache'') s))
         else
           (case js_in ''cache'' options of
              None \<Rightarrow> (Inl NativeTypeError, s)
            | Some True \<Rightarrow> lift_many (fetchMany env (jsget options ''cache'') s)
            | Some False \<Rightarrow> (Inl (LibError ''INVITE_RESOLVE_CODE''), s)))
      else lift_one (fetchSingle env (ie_resolveInviteCode env (jsget options ''code''))
                       (jsget options ''cache'') (jsget options ''force'') s))"

section \<open>ThreadChannel\<close>

text \<open>
  Modelled from the spec: \<open>Channel\<close>, the base class of \<open>ThreadChannel\<close>, is not under
  src/. By section 3 of the spec an entity takes its identifier from the payload:
  \<open>super._patch(data)\<close> sets \<open>this.id\<close>. The base constructor is called with
  \<open>immediatePatch = false\<close>, so it applies no payload.
\<close>

definition Channel_patch :: "fields \<Rightarrow> jsval \<Rightarrow> fields" where
  "Channel_patch f data = f(''id'' := jsget data ''id'')"

text \<open>
  What \<open>ThreadChannel\<close> uses from outside: \<open>new Date(x).getTime()\<close> and
  \<open>this.client.user\<close>.
\<close>

record thread_class_env =
  tc_getTime :: "jsval \<Rightarrow> jsval"
  tc_client_user :: jsval

text \<open>
  \<open>Object.assign({ user_id: this.client.user.id }, data.member)\<close>: the member's own
  properties win over \<open>user_id\<close>.
\<close>

fun assign_member :: "jsval \<Rightarrow> jsval \<Rightarrow> jsval" where
  "assign_member uid (Obj kvs) = Obj (kvs @ [(''user_id'', uid)])"
| "assign_member uid v = Obj [(''user_id'', uid)]"

text \<open>\<open>for (const message of data.messages) this.messages.add(message)\<close>.\<close>

fun iterate :: "jsval \<Rightarrow> jsval list option" where
  "iterate (Arr xs) = Some xs"
| "iterate (Str cs) = Some (map (\<lambda>c. Str [c]) cs)"
| "iterate v = None"

text \<open>
  \<open>ThreadChannel._patch(data)\<close>, statement by statement. Reading
  \<open>data.thread_metadata.locked\<close> throws when the payload has no thread metadata, after
  \<open>name\<close> and \<open>parentID\<close> have been assigned.
\<close>

definition ThreadChannel_patch :: "thread_class_env \<Rightarrow> fields \<Rightarrow> jsval \<Rightarrow> presult" where
  "ThreadChannel_patch env f data =
     (if nullish data then \<lparr>perr = Some NativeTypeError, pfields = f, pcalls = []\<rparr>
      else
       (let f1 = Channel_patch f data;
            f2 = f1(''name'' := jsget data ''name'');
            f3 = f2(''parentID'' := jsget data ''parent_id'');
            tm = jsget data ''thread_metadata''
        in if nullish tm then \<lparr>perr = Some NativeTypeError, pfields = f3, pcalls = []\<rparr>
           else
            (let f4 = f3(''locked'' := coalesce (jsget tm ''locked'') (Bool False));
                 f5 = f4(''archived'' := jsget tm ''archived'');
                 f6 = f5(''ownerID'' := jsget data ''owner_id'');
                 f7 = f6(''autoArchiveDuration'' := jsget tm ''auto_archive_duration'');
                 f8 = f7(''lastMessageID'' := jsget data ''last_message_id'');
                 f9 = f8(''lastPinTimestamp'' :=
                           (if truthy (jsget data ''last_pin_timestamp'')
                            then tc_getTime env (jsget data ''last_pin_timestamp'') else Null));
                 f10 = f9(''rateLimitPerUser'' := coalesce (jsget data ''rate_limit_per_user'') (Num 0));
                 f11 = f10(''archiveTimestamp'' :=
                           (if truthy (jsget tm ''archive_timestamp'')
                            then tc_getTime env (jsget tm ''archive_timestamp'') else Null));
                 f12 = f11(''messageCount'' := jsget data ''message_count'');
                 f13 = f12(''memberCount'' := jsget data ''member_count'');
                 c1 = (if truthy (jsget data ''member'') \<and> truthy (tc_client_user env)
                       then [MembersAdd (assign_member (jsget (tc_client_user env) ''id'')
                                           (jsget data ''member''))]
                       else [])
             in if truthy (jsget data ''messages'')
                then (case iterate (jsget data ''messages'') of
                        None \<Rightarrow> \<lparr>perr = Some NativeTypeError, pfields = f13, pcalls = c1\<rparr>
                      | Some ms \<Rightarrow> \<lparr>perr = None, pfields = f13, pcalls = c1 @ map MessagesAdd ms\<rparr>)
                else \<lparr>perr = None, pfields = f13, pcalls = c1\<rparr>)))"

text \<open>
  \<open>new ThreadChannel(guild, data)\<close>: \<open>super(guild.client, data, false)\<close> throws on
  a guild that is \<open>null\<close> or \<open>undefined\<close>; then \<open>this.guild = guild\<close>, the two
  managers and the typing map are created, and \<open>if (data) this._patch(data)\<close>.
\<close>

definition ThreadChannel_new :: "thread_class_env \<Rightarrow> jsval \<Rightarrow> jsval \<Rightarrow> presult" where
  "ThreadChannel_new env guild data =
     (if nullish guild then \<lparr>perr = Some NativeTypeError, pfields = no_fields, pcalls = []\<rparr>
      else
       (let f = no_fields(''guild'' := guild)
        in if truthy data then ThreadChannel_patch env f data
           else \<lparr>perr = None, pfields = f, pcalls = []\<rparr>))"

text \<open>The class as a manager holds it; the guild is the extra constructor argument.\<close>

definition ThreadChannel :: "thread_class_env \<Rightarrow> eclass" where
  "ThreadChannel env =
     \<lparr>construct = (\<lambda>data extras.
        ThreadChannel_new env (case extras of [] \<Rightarrow> Undefined | g # rest \<Rightarrow> g) data),
      patch = ThreadChannel_patch env\<rparr>"

section \<open>ThreadManager: mapping a page of threads\<close>

text \<open>
  Modelled from the spec: \<open>ChannelManager._add\<close>, called as
  \<open>client.channels._add(raw, guild, { cache })\<close>, is not under src/. It is the add
  protocol of section 4.2 of the spec, on the cache of \<open>client.channels\<close>, with the
  guild as the constructor's extra argument and the caller's \<open>cache\<close> flag.
\<close>

definition ChannelManager_add ::
  "eclass option \<Rightarrow> jsval \<Rightarrow> jsval \<Rightarrow> jsval \<Rightarrow> st \<Rightarrow> (error + nat) \<times> st" where
  "ChannelManager_add holds raw guild cache_arg s =
     CachedManager_add holds raw cache_arg Undefined [guild] s"

text \<open>
  The \<open>reduce\<close> of \<open>_mapThreads\<close>: every raw thread is added; the thread is left out
  of the collection when \<open>parent && thread.parentId !== parent.id\<close>.
\<close>

fun map_threads ::
  "eclass option \<Rightarrow> jsval \<Rightarrow> jsval \<Rightarrow> jsval \<Rightarrow> jsval list \<Rightarrow> (jsval \<rightharpoonup> nat) \<Rightarrow> st
     \<Rightarrow> (error + (jsval \<rightharpoonup> nat)) \<times> st" where
  "map_threads holds parent guild cache_arg [] coll s = (Inr coll, s)"
| "map_threads holds parent guild cache_arg (raw # rest) coll s =
     (case ChannelManager_add holds raw guild cache_arg s of
        (Inl e, s1) \<Rightarrow> (Inl e, s1)
      | (Inr thread, s1) \<Rightarrow>
          (if truthy parent \<and> \<not> strict_eq (heap s1 thread ''parentId'') (jsget parent ''id'')
           then map_threads holds parent guild cache_arg rest coll s1
           else map_threads holds parent guild cache_arg rest
                  (coll(heap s1 thread ''id'' \<mapsto> thread)) s1))"

text \<open>
  \<open>for (const rawMember of rawThreads.members)
  client.channels.cache.get(rawMember.id)?.members._add(rawMember)\<close>.
\<close>

fun map_members :: "jsval list \<Rightarrow> st \<Rightarrow> error option \<times> st" where
  "map_members [] s = (None, s)"
| "map_members (rawMember # rest) s =
     (if nullish rawMember then (Some NativeTypeError, s)
      else (case cache s (jsget rawMember ''id'') of
              None \<Rightarrow> map_members rest s
            | Some r \<Rightarrow> map_members rest (s\<lparr>calls := calls s @ [(r, MembersAdd rawMember)]\<rparr>)))"

record fetched_threads =
  threads :: "jsval \<rightharpoonup> nat"
  hasMore :: jsval

text \<open>
  \<open>ThreadManager._mapThreads(rawThreads, client, { parent, guild, cache })\<close>. The state's
  cache is the cache of \<open>client.channels\<close>, \<open>holds\<close> the class it builds threads of.
\<close>

definition mapThreads ::
  "eclass option \<Rightarrow> jsval \<Rightarrow> jsval \<Rightarrow> jsval \<Rightarrow> jsval \<Rightarrow> st \<Rightarrow> (error + fetched_threads) \<times> st" where
  "mapThreads holds rawThreads parent guild cache_arg s =
     (if nullish rawThreads then (Inl NativeTypeError, s)
      else
       (case jsget rawThreads ''threads'' of
          Arr raws \<Rightarrow>
            (case map_threads holds parent
                    (coalesce guild (if nullish parent then Undefined else jsget parent ''guild''))
                    cache_arg raws Map.empty s of
               (Inl e, s1) \<Rightarrow> (Inl e, s1)
             | (Inr coll, s1) \<Rightarrow>
                 (case iterate (jsget rawThreads ''members'') of
                    None \<Rightarrow> (Inl NativeTypeError, s1)
                  | Some ms \<Rightarrow>
                      (case map_members ms s1 of
                         (Some e, s2) \<Rightarrow> (Inl e, s2)
                       | (None, s2) \<Rightarrow>
                           (Inr \<lparr>threads = coll,
                                 hasMore = coalesce (jsget rawThreads ''has_more'') (Bool False)\<rparr>,
                            s2))))
        | other \<Rightarrow> (Inl NativeTypeError, s)))"

section \<open>ThreadManager.fetchArchived\<close>

text \<open>
  \<open>String(v)\<close>. A non-negative integer prints as its decimal digits (the integers of
  this model are taken to be exactly representable). A class instance prints through
  its own \<open>toString\<close>, which for the classes at hand (channels, dates) is never a
  string of digits; \<open>[object Object]\<close> stands for it.
\<close>

fun digits_of :: "nat \<Rightarrow> string" where
  "digits_of n =
     (if n < 10 then [char_of (48 + n)] else digits_of (n div 10) @ [char_of (48 + n mod 10)])"

declare digits_of.simps [simp del]

definition join_comma :: "string list \<Rightarrow> string" where
  "join_comma xs = (case xs of [] \<Rightarrow> [] | y # ys \<Rightarrow> foldl (\<lambda>acc x. acc @ '','' @ x) y ys)"

fun js_String :: "jsval \<Rightarrow> string" where
  "js_String Undefined = ''undefined''"
| "js_String Null = ''null''"
| "js_String (Bool b) = (if b then ''true'' else ''false'')"
| "js_String (Num n) = (if n < 0 then ''-'' @ digits_of (nat (- n)) else digits_of (nat n))"
| "js_String (Str s) = s"
| "js_String (Arr xs) = join_comma (map (\<lambda>x. if nullish x then [] else js_String x) xs)"
| "js_String (Obj kvs) = ''[object Object]''"
| "js_String (Ref r) = ''[object Object]''"

text \<open>\<open>/^\d{16,19}$/.test(String(v))\<close>.\<close>

definition is_digit :: "char \<Rightarrow> bool" where
  "is_digit c = (c \<in> set ''0123456789'')"

definition snowflake_like :: "jsval \<Rightarrow> bool" where
  "snowflake_like v =
     (let str = js_String v
      in list_all is_digit str \<and> 16 \<le> length str \<and> length str \<le> 19)"

text \<open>
  The thread manager of a channel: \<open>this.channel\<close> (its \<open>id\<close> and \<open>guild\<close> are read),
  the class \<open>client.channels\<close> builds threads of, and what is not under src/: the
  inherited \<open>resolveId\<close> and \<open>resolve\<close> (the latter answers an instance or \<open>null\<close>),
  the test \<open>instanceof ThreadChannel\<close> on a value, \<open>new Date(x).toISOString()\<close>
  (which throws a \<open>RangeError\<close> on an invalid date: \<open>None\<close>) and the transport.
\<close>

record thread_env =
  te_holds :: "eclass option"
  te_channel :: jsval
  te_resolveId :: "jsval \<Rightarrow> jsval"
  te_resolve :: "jsval \<Rightarrow> jsval"
  te_instanceofThread :: "jsval \<Rightarrow> bool"
  te_toISOString :: "jsval \<Rightarrow> jsval option"
  te_api :: "request \<Rightarrow> error + jsval"

text \<open>
  The options of \<open>fetchArchived\<close>, after destructuring; \<open>type\<close> and \<open>fetchAll\<close>
  take their defaults when \<open>undefined\<close>.
\<close>

record archive_options =
  ao_type :: jsval
  ao_fetchAll :: jsval
  ao_before :: jsval
  ao_limit :: jsval

text \<open>
  \<open>this.resolve(before)?.archivedAt?.toISOString()\<close>, with the getter
  \<open>archivedAt\<close> of \<open>ThreadChannel\<close>: \<open>this.archiveTimestamp ? new
  Date(this.archiveTimestamp) : null\<close>.
\<close>

definition archived_iso :: "thread_env \<Rightarrow> jsval \<Rightarrow> st \<Rightarrow> error + jsval" where
  "archived_iso env before s =
     (case te_resolve env before of
        Ref r \<Rightarrow>
          (if truthy (heap s r ''archiveTimestamp'')
           then (case te_toISOString env (heap s r ''archiveTimestamp'') of
                   None \<Rightarrow> Inl RangeError
                 | Some txt \<Rightarrow> Inr txt)
           else Inr Undefined)
      | other \<Rightarrow> Inr Undefined)"

text \<open>
  The cursor part of \<open>fetchArchived\<close>: the pair \<open>(id, timestamp)\<close> the code computes
  from \<open>before\<close>, or the error it throws.
\<close>

definition before_cursor :: "thread_env \<Rightarrow> jsval \<Rightarrow> st \<Rightarrow> error + (jsval \<times> jsval)" where
  "before_cursor env before s =
     (if typeof before \<noteq> ''undefined'' then
        (if te_instanceofThread env before \<or> snowflake_like before then
           (case archived_iso env before s of
              Inl e \<Rightarrow> Inl e
            | Inr ts \<Rightarrow> Inr (te_resolveId env before, ts))
         else
           (case te_toISOString env before of
              None \<Rightarrow> Inl (LibTypeError ''INVALID_TYPE'' ''before''
                            ''DateResolvable or ThreadChannelResolvable'')
            | Some ts \<Rightarrow> Inr (Undefined, ts)))
      else Inr (Undefined, Undefined))"

text \<open>\<open>type === 'private' && !fetchAll\<close>, after the defaults.\<close>

definition own_private :: "archive_options \<Rightarrow> bool" where
  "own_private opts =
     (strict_eq (if ao_type opts = Undefined then Str ''public'' else ao_type opts) (Str ''private'')
      \<and> \<not> truthy (if ao_fetchAll opts = Undefined then Bool False else ao_fetchAll opts))"

text \<open>The request \<open>fetchArchived\<close> issues for a computed cursor.\<close>

definition archived_request :: "thread_env \<Rightarrow> archive_options \<Rightarrow> jsval \<times> jsval \<Rightarrow> request" where
  "archived_request env opts cur =
     Request ''get''
       ([Str ''channels'', jsget (te_channel env) ''id'']
        @ (if own_private opts then [Str ''users'', Str ''@me''] else [])
        @ [Str ''threads'', Str ''archived'',
           (if ao_type opts = Undefined then Str ''public'' else ao_type opts)])
       (Obj [(''query'',
              Obj [(''before'', if own_private opts then fst cur else snd cur),
                   (''limit'', ao_limit opts)])])"

text \<open>
  \<open>ThreadManager.fetchArchived({ type = 'public', fetchAll = false, before, limit } =
  {}, cache = true)\<close>.
\<close>

definition fetchArchived ::
  "thread_env \<Rightarrow> archive_options \<Rightarrow> jsval \<Rightarrow> st \<Rightarrow> (error + fetched_threads) \<times> st" where
  "fetchArchived env opts cache_arg s =
     (case before_cursor env (ao_before opts) s of
        Inl e \<Rightarrow> (Inl e, s)
      | Inr cur \<Rightarrow>
          (let req = archived_request env opts cur;
               s1 = s\<lparr>sent := sent s @ [req]\<rparr>
           in case te_api env req of
                Inl e \<Rightarrow> (Inl e, s1)
              | Inr raw \<Rightarrow>
                  mapThreads (te_holds env) raw (te_channel env) Undefined
                    (if cache_arg = Undefined then Bool True else cache_arg) s1))"

section \<open>ClientPresence\<close>

text \<open>
  The client's presence with the partitions (shards) it is sent to: the fields of the
  \<open>ClientPresence\<close> instance (\<open>status\<close>, \<open>activities\<close>, ...), the keys of
  \<open>client.ws.shards\<close> in registration order (a \<open>Map\<close>: its keys are distinct), and
  what each shard has been sent so far.
\<close>

record presence_st =
  ps_self :: fields
  ps_shards :: "jsval list"
  ps_delivered :: "(jsval \<times> jsval) list"

text \<open>The tables of \<open>Constants\<close> the code reads; they are not under src/.\<close>

record presence_env =
  pe_ActivityTypes :: "jsval \<Rightarrow> jsval"
  pe_STATUS_UPDATE :: jsval

text \<open>The argument of \<open>set\<close>, as \<open>_parse\<close> destructures it, and its \<open>shardID\<close>.\<close>

record presence_data =
  pd_status :: jsval
  pd_since :: jsval
  pd_afk :: jsval
  pd_activities :: jsval
  pd_shardID :: jsval

text \<open>\<open>v.length\<close> for the values that have one.\<close>

fun js_length :: "jsval \<Rightarrow> jsval" where
  "js_length (Arr xs) = Num (int (length xs))"
| "js_length (Str cs) = Num (int (length cs))"
| "js_length v = jsget v ''length''"

text \<open>
  The loop of \<open>_parse\<close> over \<open>activities.entries()\<close>, from index \<open>i\<close>; the
  activities pushed so far are \<open>acc\<close>.
\<close>

fun parse_activities ::
  "presence_env \<Rightarrow> nat \<Rightarrow> jsval list \<Rightarrow> jsval list \<Rightarrow> error + jsval list" where
  "parse_activities env i [] acc = Inr acc"
| "parse_activities env i (activity # rest) acc =
     (if nullish activity then Inl NativeTypeError
      else if typeof (jsget activity ''name'') \<noteq> ''string''
      then Inl (LibTypeError ''INVALID_TYPE'' (''activities['' @ digits_of i @ ''].name'') ''string'')
      else
       (let ty = (if \<not> truthy (jsget activity ''type'') then Num 0 else jsget activity ''type'')
        in parse_activities env (Suc i) rest
             (acc @ [Obj [(''type'', if typeof ty = ''number'' then ty else pe_ActivityTypes env ty),
                          (''name'', jsget activity ''name''),
                          (''url'', jsget activity ''url'')]])))"

text \<open>
  \<open>this.activities.map(a => ({ name: a.name, type: ActivityTypes[a.type], url: a.url ??
  undefined }))\<close>.
\<close>

definition own_activity :: "presence_env \<Rightarrow> jsval \<Rightarrow> jsval" where
  "own_activity env a =
     Obj [(''name'', jsget a ''name''),
          (''type'', pe_ActivityTypes env (jsget a ''type'')),
          (''url'', coalesce (jsget a ''url'') Undefined)]"

text \<open>\<open>ClientPresence._parse({ status, since, afk, activities })\<close>.\<close>

definition ClientPresence_parse :: "presence_env \<Rightarrow> fields \<Rightarrow> presence_data \<Rightarrow> error + jsval" where
  "ClientPresence_parse env self p =
     (let afk = (if typeof (pd_afk p) = ''boolean'' then pd_afk p else Bool False);
          since = (if typeof (pd_since p) = ''number'' then pd_since p else Null);
          status = (if truthy (pd_status p) then pd_status p else self ''status'');
          packet = (\<lambda>acts. Obj [(''activities'', Arr acts), (''afk'', afk), (''since'', since),
                                 (''status'', status)])
      in if \<not> nullish (pd_activities p) \<and> truthy (js_length (pd_activities p)) then
           (case pd_activities p of
              Arr acts \<Rightarrow>
                (case parse_activities env 0 acts [] of
                   Inl e \<Rightarrow> Inl e
                 | Inr parsed \<Rightarrow> Inr (packet parsed))
            | other \<Rightarrow> Inl NativeTypeError)
         else if \<not> truthy (pd_activities p)
                 \<and> (truthy (pd_status p) \<or> truthy (pd_afk p) \<or> truthy (pd_since p)) then
           (case self ''activities'' of
              Arr own \<Rightarrow> Inr (packet (map (own_activity env) own))
            | other \<Rightarrow> if nullish other \<or> truthy (js_length other) then Inl NativeTypeError
                       else Inr (packet []))
         else Inr (packet []))"

text \<open>
  Modelled from the spec: \<open>Presence.patch\<close>, called as \<open>this.patch(packet)\<close>, is not
  under src/. By section 3 of the spec a patch overwrites the fields present in the
  payload.
\<close>

definition Presence_patch :: "fields \<Rightarrow> jsval \<Rightarrow> fields" where
  "Presence_patch self packet = merge_fields self packet"

text \<open>
  Modelled from the spec: \<open>client.ws.broadcast\<close> is not under src/. By section 4.4 of
  the spec the target ALL forwards the payload to every currently registered partition
  handle, in registration order.
\<close>

definition broadcast :: "jsval \<Rightarrow> presence_st \<Rightarrow> presence_st" where
  "broadcast payload s =
     s\<lparr>ps_delivered := ps_delivered s @ map (\<lambda>k. (k, payload)) (ps_shards s)\<rparr>"

text \<open>
  \<open>this.client.ws.shards.get(shardID).send(payload)\<close>: \<open>get\<close> answers
  \<open>undefined\<close> for a key that is not registered, and calling \<open>send\<close> on it throws.
\<close>

definition send_to :: "jsval \<Rightarrow> jsval \<Rightarrow> presence_st \<Rightarrow> error option \<times> presence_st" where
  "send_to shardID payload s =
     (if shardID \<in> set (ps_shards s)
      then (None, s\<lparr>ps_delivered := ps_delivered s @ [(shardID, payload)]\<rparr>)
      else (Some NativeTypeError, s))"

text \<open>\<open>for (const shardID of presence.shardID) ... .send(...)\<close>.\<close>

fun send_each :: "jsval list \<Rightarrow> jsval \<Rightarrow> presence_st \<Rightarrow> error option \<times> presence_st" where
  "send_each [] payload s = (None, s)"
| "send_each (shardID # rest) payload s =
     (case send_to shardID payload s of
        (Some e, s1) \<Rightarrow> (Some e, s1)
      | (None, s1) \<Rightarrow> send_each rest payload s1)"

text \<open>The payload every send of \<open>set\<close> carries: \<open>{ op: OPCodes.STATUS_UPDATE, d: packet }\<close>.\<close>

definition status_payload :: "presence_env \<Rightarrow> jsval \<Rightarrow> jsval" where
  "status_payload env packet = Obj [(''op'', pe_STATUS_UPDATE env), (''d'', packet)]"

text \<open>\<open>ClientPresence.set(presence)\<close>; it returns \<open>this\<close>.\<close>

definition ClientPresence_set ::
  "presence_env \<Rightarrow> presence_data \<Rightarrow> presence_st \<Rightarrow> (error + unit) \<times> presence_st" where
  "ClientPresence_set env presence s =
     (case ClientPresence_parse env (ps_self s) presence of
        Inl e \<Rightarrow> (Inl e, s)
      | Inr packet \<Rightarrow>
         (let s1 = s\<lparr>ps_self := Presence_patch (ps_self s) packet\<rparr>;
              payload = status_payload env packet
          in if typeof (pd_shardID presence) = ''undefined'' then (Inr (), broadcast payload s1)
             else
              (case (case pd_shardID presence of
                       Arr ids \<Rightarrow> send_each ids payload s1
                     | single \<Rightarrow> send_to single payload s1) of
                 (Some e, s2) \<Rightarrow> (Inl e, s2)
               | (None, s2) \<Rightarrow> (Inr (), s2))))"

section \<open>Well-formed states and example inputs\<close>

text \<open>
  Every instance of the cache has been allocated: its address lies below \<open>nxt\<close>.
  The operations keep this (see \<open>allocated_add\<close>).
\<close>

definition allocated :: "st \<Rightarrow> bool" where
  "allocated s = (\<forall>r \<in> ran (cache s). r < nxt s)"

text \<open>A manager with nothing cached, and no instance in the store.\<close>

definition empty_st :: st where
  "empty_st = \<lparr>heap = (\<lambda>r. no_fields), nxt = 0, cache = Map.empty, sent = [], calls = []\<rparr>"

text \<open>A manager whose cache holds the instance \<open>{id: "1", name: "a"}\<close> under \<open>"1"\<close>.\<close>

definition one_cached :: st where
  "one_cached =
     \<lparr>heap = (\<lambda>r. no_fields)(0 := no_fields(''id'' := Str ''1'', ''name'' := Str ''a'')),
      nxt = 1, cache = [Str ''1'' \<mapsto> 0], sent = [], calls = []\<rparr>"

text \<open>Two instances with the same id, the first of them cached.\<close>

definition two_instances :: st where
  "two_instances =
     \<lparr>heap = (\<lambda>r. no_fields)
        (0 := no_fields(''id'' := Str ''1'', ''name'' := Str ''a''),
         1 := no_fields(''id'' := Str ''1'', ''name'' := Str ''b'')),
      nxt = 2, cache = [Str ''1'' \<mapsto> 0], sent = [], calls = []\<rparr>"

text \<open>
  A stage-instance manager whose channels resolve to themselves and whose transport
  answers every request with \<open>{id: "1", name: "b"}\<close>.
\<close>

definition stage_env0 :: stage_env where
  "stage_env0 =
     \<lparr>se_holds = Some Entity, se_resolveID = (\<lambda>v. v), se_PrivacyLevels = (\<lambda>v. Undefined),
      se_api = (\<lambda>req. Inr (Obj [(''id'', Str ''1''), (''name'', Str ''b'')]))\<rparr>"

text \<open>
  A page of one archived thread of parent channel \<open>"P"\<close>, as the transport answers
  it, and the thread class with a clock that returns its argument and no logged-in user.
\<close>

definition tc_env0 :: thread_class_env where
  "tc_env0 = \<lparr>tc_getTime = (\<lambda>v. v), tc_client_user = Null\<rparr>"

definition thread_payload :: jsval where
  "thread_payload =
     Obj [(''id'', Str ''1''), (''name'', Str ''t''), (''parent_id'', Str ''P''),
          (''thread_metadata'', Obj [(''archived'', Bool True)])]"

definition raw_page :: jsval where
  "raw_page = Obj [(''threads'', Arr [thread_payload]), (''members'', Arr []),
                   (''has_more'', Bool True)]"

definition parent0 :: jsval where
  "parent0 = Obj [(''id'', Str ''P''), (''guild'', Str ''G'')]"

text \<open>The fields \<open>new ThreadChannel(guild, thread_payload)\<close> ends with.\<close>

definition thread_fields :: fields where
  "thread_fields =
     no_fields(''guild'' := Str ''G'', ''id'' := Str ''1'', ''name'' := Str ''t'',
        ''parentID'' := Str ''P'', ''locked'' := Bool False, ''archived'' := Bool True,
        ''ownerID'' := Undefined, ''autoArchiveDuration'' := Undefined,
        ''lastMessageID'' := Undefined, ''lastPinTimestamp'' := Null,
        ''rateLimitPerUser'' := Num 0, ''archiveTimestamp'' := Null,
        ''messageCount'' := Undefined, ''memberCount'' := Undefined)"

text \<open>The state after that thread has been added to an empty cache.\<close>

definition page_after :: st where
  "page_after = \<lparr>heap = (\<lambda>r. no_fields)(0 := thread_fields), nxt = 1,
                  cache = [Str ''1'' \<mapsto> 0], sent = [], calls = []\<rparr>"

text \<open>
  A thread manager of channel \<open>"P"\<close> with nothing cached: \<open>resolveId\<close> answers a
  string with itself, \<open>resolve\<close> finds nothing, the clock converts the timestamp
  \<open>0\<close> and nothing else, and the transport answers an empty page.
\<close>

definition thread_env0 :: thread_env where
  "thread_env0 =
     \<lparr>te_holds = Some (ThreadChannel tc_env0), te_channel = parent0,
      te_resolveId = (\<lambda>v. case v of Str s \<Rightarrow> v | other \<Rightarrow> Null),
      te_resolve = (\<lambda>v. Null),
      te_instanceofThread = (\<lambda>v. False),
      te_toISOString = (\<lambda>v. if v = Num 0 then Some (Str ''1970-01-01T00:00:00.000Z'') else None),
      te_api = (\<lambda>req. Inr (Obj [(''threads'', Arr []), (''members'', Arr [])]))\<rparr>"

text \<open>Options asking for the caller's own private archived threads before \<open>b\<close>.\<close>

definition private_before :: "jsval \<Rightarrow> archive_options" where
  "private_before b = \<lparr>ao_type = Str ''private'', ao_fetchAll = Undefined, ao_before = b,
                        ao_limit = Undefined\<rparr>"

text \<open>
  The request for the caller's own private archived threads:
  \<open>channels(id).users('@me').threads.archived('private').get({ query: { before, limit } })\<close>.
\<close>

definition private_request :: "jsval \<Rightarrow> jsval \<Rightarrow> jsval \<Rightarrow> request" where
  "private_request channel_id before limit =
     Request ''get''
       [Str ''channels'', channel_id, Str ''users'', Str ''@me'', Str ''threads'',
        Str ''archived'', Str ''private'']
       (Obj [(''query'', Obj [(''before'', before), (''limit'', limit)])])"

text \<open>
  An invite manager of guild \<open>"G"\<close> with nothing cached: the code resolver answers
  a string of letters, digits, \<open>_\<close> and \<open>-\<close> with itself and finds no code in
  anything else, and the transport answers an empty list of invites.
\<close>

definition is_code_char :: "char \<Rightarrow> bool" where
  "is_code_char c =
     (c \<in> set ''abcdefghijklmnopqrstuvwxyzABCDEFGHIJKLMNOPQRSTUVWXYZ0123456789_-'')"

definition invite_env0 :: invite_env where
  "invite_env0 =
     \<lparr>ie_holds = Some Entity, ie_guild = Str ''G'', ie_guild_id = Str ''G'',
      ie_resolveInviteCode =
        (\<lambda>v. case v of Str s \<Rightarrow> if list_all is_code_char s then v else Null
                        | other \<Rightarrow> Null),
      ie_resolveId = (\<lambda>v. v),
      ie_api = (\<lambda>req. Inr (Arr []))\<rparr>"

text \<open>
  The reaction-user manager of a reaction on message \<open>"M"\<close> of channel \<open>"C"\<close>, for
  a client logged in as user \<open>"U"\<close>; a user resolves to its id, an id to itself.
\<close>

definition reaction_env0 :: reaction_env where
  "reaction_env0 =
     \<lparr>re_reaction = Str ''reaction'', re_channel_id = Str ''C'', re_message_id = Str ''M'',
      re_emoji_identifier = Str ''e'', re_client_user = Obj [(''id'', Str ''U'')],
      re_resolveId = (\<lambda>v. case v of Str s \<Rightarrow> v | Obj kvs \<Rightarrow> jsget v ''id''
                            | other \<Rightarrow> Null),
      re_api = (\<lambda>req. Inr Undefined)\<rparr>"

text \<open>
  A dispatch target names a partition with no live handle: a listed or single shard id
  that is not a key of \<open>client.ws.shards\<close>.
\<close>

definition unresolved_target :: "jsval \<Rightarrow> presence_st \<Rightarrow> bool" where
  "unresolved_target target s =
     (case target of
        Undefined \<Rightarrow> False
      | Arr ids \<Rightarrow> \<not> list_all (\<lambda>k. k \<in> set (ps_shards s)) ids
      | single \<Rightarrow> single \<notin> set (ps_shards s))"

text \<open>
  A client that is \<open>online\<close> with no activity, connected through shards \<open>0\<close> and
  \<open>1\<close>; the status update has opcode \<open>3\<close>. \<open>idle_to target\<close> asks for status
  \<open>idle\<close> on the target, \<open>idle_packet\<close> is what \<open>_parse\<close> makes of it, and
  \<open>bad_activity\<close> carries an activity whose name is not a string.
\<close>

definition presence_env0 :: presence_env where
  "presence_env0 = \<lparr>pe_ActivityTypes = (\<lambda>v. v), pe_STATUS_UPDATE = Num 3\<rparr>"

definition presence_st0 :: presence_st where
  "presence_st0 =
     \<lparr>ps_self = no_fields(''status'' := Str ''online'', ''activities'' := Arr []),
      ps_shards = [Num 0, Num 1], ps_delivered = []\<rparr>"

definition idle_to :: "jsval \<Rightarrow> presence_data" where
  "idle_to target = \<lparr>pd_status = Str ''idle'', pd_since = Undefined, pd_afk = Undefined,
                      pd_activities = Undefined, pd_shardID = target\<rparr>"

definition idle_packet :: jsval where
  "idle_packet = Obj [(''activities'', Arr []), (''afk'', Bool False), (''since'', Null),
                      (''status'', Str ''idle'')]"

definition bad_activity :: presence_data where
  "bad_activity = \<lparr>pd_status = Str ''idle'', pd_since = Undefined, pd_afk = Undefined,
                    pd_activities = Arr [Obj [(''name'', Num 1)]], pd_shardID = Undefined\<rparr>"


text \<open>
  A page holding the example thread and no members, with further properties \<open>extra\<close>
  (a \<open>has_more\<close>, or none).
\<close>

definition page_with :: "(string \<times> jsval) list \<Rightarrow> jsval" where
  "page_with extra = Obj ([(''threads'', Arr [thread_payload]), (''members'', Arr [])] @ extra)"

section \<open>Properties of the add protocol\<close>

lemma allocated_add:
  "allocated s \<Longrightarrow> allocated (snd (CachedManager_add holds data c i ex s))"
  by (auto simp add: allocated_def CachedManager_add_def Let_def run_patch_def new_entry_def ran_def
        split: option.splits prod.splits if_splits)

text \<open>
  C7 (no-cache does not fork): when the identifier looked up is already in the cache,
  \<open>_add(data, false)\<close> returns the cached instance and leaves the whole state as it
  was: no field of the instance changes, \<open>_patch\<close> is not called.
\<close>

theorem no_cache_add_returns_existing:
  assumes "\<not> (nullish id_arg \<and> nullish data)"
      and "cache s (coalesce id_arg (jsget data ''id'')) = Some r"
  shows "CachedManager_add holds data (Bool False) id_arg extras s = (Inr r, s)"
  using assms by (simp add: CachedManager_add_def cache_flag_def)

theorem no_cache_add_returns_existing_witness:
  "CachedManager_add (Some Entity) (Obj [(''id'', Str ''1''), (''name'', Str ''z'')]) (Bool False)
     Undefined [] one_cached = (Inr 0, one_cached)"
proof -
  have a: "\<not> (nullish Undefined \<and> nullish (Obj [(''id'', Str ''1''), (''name'', Str ''z'')]))"
    by simp
  have b: "cache one_cached
             (coalesce Undefined (jsget (Obj [(''id'', Str ''1''), (''name'', Str ''z'')]) ''id''))
           = Some 0"
    by (simp add: one_cached_def coalesce_def)
  show ?thesis by (rule no_cache_add_returns_existing [OF a b])
qed

text \<open>
  C9: \<open>ThreadManager._add(thread)\<close> returns the cached instance when the thread's id
  is in the cache, and leaves the state as it was (the argument's data is not applied to
  the cached instance); only when the id is absent is the argument stored under its id
  and returned.
\<close>

theorem thread_add_keeps_cached:
  "(\<forall>existing. cache s (heap s thread ''id'') = Some existing \<longrightarrow>
       ThreadManager_add thread s = (existing, s))
   \<and> (cache s (heap s thread ''id'') = None \<longrightarrow>
       ThreadManager_add thread s = (thread, s\<lparr>cache := (cache s)(heap s thread ''id'' \<mapsto> thread)\<rparr>))"
  by (simp add: ThreadManager_add_def)

theorem thread_add_keeps_cached_witness:
  "ThreadManager_add 1 two_instances = (0, two_instances)
   \<and> heap two_instances 0 ''name'' = Str ''a''
   \<and> heap two_instances 1 ''name'' = Str ''b''
   \<and> ThreadManager_add 1 (two_instances\<lparr>cache := Map.empty\<rparr>)
       = (1, two_instances\<lparr>cache := [Str ''1'' \<mapsto> 1]\<rparr>)"
proof -
  have a: "cache two_instances (heap two_instances 1 ''id'') = Some 0"
    by (simp add: two_instances_def)
  have b: "cache (two_instances\<lparr>cache := Map.empty\<rparr>)
             (heap (two_instances\<lparr>cache := Map.empty\<rparr>) 1 ''id'') = None"
    by simp
  from thread_add_keeps_cached [of two_instances 1] a
  have c: "ThreadManager_add 1 two_instances = (0, two_instances)" by blast
  from thread_add_keeps_cached [of "two_instances\<lparr>cache := Map.empty\<rparr>" 1] b
  have d: "ThreadManager_add 1 (two_instances\<lparr>cache := Map.empty\<rparr>)
       = (1, two_instances\<lparr>cache := [Str ''1'' \<mapsto> 1]\<rparr>)"
    by (simp add: two_instances_def)
  show ?thesis using c d by (simp add: two_instances_def)
qed

text \<open>
  C1 (identity-preserving merge): for a held class whose \<open>_patch\<close> overwrites the
  fields present in the payload and whose constructor takes the id from the payload, two
  caching adds of payloads with the same id return the same instance; the cache holds
  that one instance under the id and the second add does not change the cache; after
  the second add the instance's fields are the second payload merged over what the
  first add left (the instance built from the first payload, or the previously cached
  instance patched with it).
\<close>

theorem add_twice_same_instance:
  assumes "patch c = patch Entity"
      and "perr (construct c p1 ex1) = None"
      and "pfields (construct c p1 ex1) ''id'' = jsget p1 ''id''"
      and "jsget p2 ''id'' = jsget p1 ''id''"
      and "\<not> nullish p1" and "\<not> nullish p2"
  shows "\<exists>r s1 s2.
           CachedManager_add (Some c) p1 (Bool True) Undefined ex1 s = (Inr r, s1)
         \<and> CachedManager_add (Some c) p2 (Bool True) Undefined ex2 s1 = (Inr r, s2)
         \<and> cache s1 = (cache s)(jsget p1 ''id'' \<mapsto> r)
         \<and> cache s2 = cache s1
         \<and> heap s2 r = merge_fields (heap s1 r) p2
         \<and> heap s1 r = (case cache s (jsget p1 ''id'') of
                          None \<Rightarrow> pfields (construct c p1 ex1)
                        | Some r0 \<Rightarrow> merge_fields (heap s r0) p1)"
  using assms
  by (cases "cache s (jsget p1 ''id'')")
     (auto simp add: CachedManager_add_def cache_flag_def new_entry_def run_patch_def Entity_def coalesce_def Let_def split: prod.splits option.splits)

theorem add_twice_same_instance_witness:
  "\<exists>r s1 s2.
      CachedManager_add (Some Entity) (Obj [(''id'', Str ''1''), (''name'', Str ''a'')])
        (Bool True) Undefined [] empty_st = (Inr r, s1)
    \<and> CachedManager_add (Some Entity) (Obj [(''id'', Str ''1''), (''name'', Str ''b'')])
        (Bool True) Undefined [] s1 = (Inr r, s2)
    \<and> cache s2 (Str ''1'') = Some r
    \<and> heap s1 r ''name'' = Str ''a''
    \<and> heap s2 r ''name'' = Str ''b''
    \<and> heap s2 r ''id'' = Str ''1''"
proof -
  let ?p1 = "Obj [(''id'', Str ''1''), (''name'', Str ''a'')]"
  let ?p2 = "Obj [(''id'', Str ''1''), (''name'', Str ''b'')]"
  have h1: "patch Entity = patch Entity" by simp
  have h2: "perr (construct Entity ?p1 []) = None" by (simp add: Entity_def)
  have h3: "pfields (construct Entity ?p1 []) ''id'' = jsget ?p1 ''id''"
    by (simp add: Entity_def merge_fields_def)
  have h4: "jsget ?p2 ''id'' = jsget ?p1 ''id''" by simp
  have h5: "\<not> nullish ?p1" and h6: "\<not> nullish ?p2" by simp_all
  from add_twice_same_instance [where s = empty_st and ?ex2.0 = "[]", OF h1 h2 h3 h4 h5 h6]
  obtain r s1 s2 where
    a: "CachedManager_add (Some Entity) ?p1 (Bool True) Undefined [] empty_st = (Inr r, s1)" and
    b: "CachedManager_add (Some Entity) ?p2 (Bool True) Undefined [] s1 = (Inr r, s2)" and
    c: "cache s1 = (cache empty_st)(jsget ?p1 ''id'' \<mapsto> r)" and
    d: "cache s2 = cache s1" and
    e: "heap s2 r = merge_fields (heap s1 r) ?p2" and
    f: "heap s1 r = (case cache empty_st (jsget ?p1 ''id'') of
                          None \<Rightarrow> pfields (construct Entity ?p1 [])
                        | Some r0 \<Rightarrow> merge_fields (heap empty_st r0) ?p1)"
    by blast
  have f': "heap s1 r = merge_fields no_fields ?p1"
    using f by (simp add: empty_st_def Entity_def)
  have "cache s2 (Str ''1'') = Some r" using c d by simp
  moreover have "heap s1 r ''name'' = Str ''a''" using f' by (simp add: merge_fields_def)
  moreover have "heap s2 r ''name'' = Str ''b''" using e by (simp add: merge_fields_def)
  moreover have "heap s2 r ''id'' = Str ''1''" using e by (simp add: merge_fields_def)
  ultimately show ?thesis using a b by blast
qed

section \<open>Properties of StageInstanceManager.edit\<close>

text \<open>
  C10: when the id of the response of \<open>edit\<close> is in the cache, the cached instance
  and the cache are left as they were, and the call returns a new instance (an address
  no cache entry has) holding the cached instance's fields patched with the response;
  when the id is not cached, \<open>edit\<close> is \<open>add\<close> of the response.
\<close>

theorem edit_returns_patched_clone:
  assumes "typeof options = ''object''" and "\<not> nullish options"
      and "truthy (se_resolveID env channel)"
      and "se_api env (edit_request env (se_resolveID env channel) (jsget options ''topic'')
                         (jsget options ''privacyLevel'')) = Inr data"
      and "\<not> nullish data"
      and "allocated s"
  shows "(\<forall>r c. cache s (jsget data ''id'') = Some r \<and> se_holds env = Some c \<longrightarrow>
            (let (res, s') = StageInstanceManager_edit env channel options s
             in heap s' r = heap s r \<and> cache s' = cache s \<and> nxt s \<notin> ran (cache s)
                \<and> heap s' (nxt s) = pfields (patch c (heap s r) data)
                \<and> res = (case perr (patch c (heap s r) data) of
                            None \<Rightarrow> Inr (nxt s) | Some e \<Rightarrow> Inl e)))
       \<and> (cache s (jsget data ''id'') = None \<longrightarrow>
            StageInstanceManager_edit env channel options s =
              BaseManager_add (se_holds env) data Undefined Undefined []
                (s\<lparr>sent := sent s @ [edit_request env (se_resolveID env channel)
                    (jsget options ''topic'') (jsget options ''privacyLevel'')]\<rparr>))"
  using assms
  by (auto simp add: StageInstanceManager_edit_def Let_def clone_instance_def run_patch_def
        allocated_def ran_def split: option.splits prod.splits)

theorem edit_returns_patched_clone_witness:
  "(let (res, s') = StageInstanceManager_edit stage_env0 (Str ''42'')
                      (Obj [(''topic'', Str ''t'')]) one_cached
    in res = Inr 1 \<and> cache s' (Str ''1'') = Some 0
       \<and> heap s' 0 ''name'' = Str ''a'' \<and> heap s' 1 ''name'' = Str ''b'')
   \<and> fst (StageInstanceManager_edit stage_env0 (Str ''42'') (Obj [(''topic'', Str ''t'')]) empty_st)
       = Inr 0"
proof -
  let ?o = "Obj [(''topic'', Str ''t'')]"
  let ?d = "Obj [(''id'', Str ''1''), (''name'', Str ''b'')]"
  have h1: "typeof ?o = ''object''" and h2: "\<not> nullish ?o" by simp_all
  have h3: "truthy (se_resolveID stage_env0 (Str ''42''))" by (simp add: stage_env0_def)
  have h4: "se_api stage_env0 (edit_request stage_env0 (se_resolveID stage_env0 (Str ''42''))
              (jsget ?o ''topic'') (jsget ?o ''privacyLevel'')) = Inr ?d"
    by (simp add: stage_env0_def)
  have h5: "\<not> nullish ?d" by simp
  have h6: "allocated one_cached" by (simp add: allocated_def one_cached_def)
  have h7: "allocated empty_st" by (simp add: allocated_def empty_st_def)
  have k1: "cache one_cached (jsget ?d ''id'') = Some 0 \<and> se_holds stage_env0 = Some Entity"
    by (simp add: one_cached_def stage_env0_def)
  have k2: "cache empty_st (jsget ?d ''id'') = None" by (simp add: empty_st_def)
  from edit_returns_patched_clone [OF h1 h2 h3 h4 h5 h6] k1
  have a: "let (res, s') = StageInstanceManager_edit stage_env0 (Str ''42'') ?o one_cached
             in heap s' 0 = heap one_cached 0 \<and> cache s' = cache one_cached \<and> nxt one_cached \<notin> ran (cache one_cached)
                \<and> heap s' (nxt one_cached) = pfields (patch Entity (heap one_cached 0) ?d)
                \<and> res = (case perr (patch Entity (heap one_cached 0) ?d) of
                            None \<Rightarrow> Inr (nxt one_cached) | Some e \<Rightarrow> Inl e)"
    by blast
  from edit_returns_patched_clone [OF h1 h2 h3 h4 h5 h7] k2
  have b: "StageInstanceManager_edit stage_env0 (Str ''42'') ?o empty_st =
              BaseManager_add (se_holds stage_env0) ?d Undefined Undefined []
                (empty_st\<lparr>sent := sent empty_st @ [edit_request stage_env0 (se_resolveID stage_env0 (Str ''42''))
                    (jsget ?o ''topic'') (jsget ?o ''privacyLevel'')]\<rparr>)"
    by blast
  have b': "fst (StageInstanceManager_edit stage_env0 (Str ''42'') ?o empty_st) = Inr 0"
    unfolding b
    by (simp add: BaseManager_add_def CachedManager_add_def stage_env0_def Entity_def
          new_entry_def cache_flag_def empty_st_def coalesce_def)
  have a': "let (res, s') = StageInstanceManager_edit stage_env0 (Str ''42'') ?o one_cached
    in res = Inr 1 \<and> cache s' (Str ''1'') = Some 0
       \<and> heap s' 0 ''name'' = Str ''a'' \<and> heap s' 1 ''name'' = Str ''b''"
    using a by (auto simp add: one_cached_def Entity_def merge_fields_def split: prod.splits)
  show ?thesis using a' b' by blast
qed

section \<open>Properties of ThreadManager._mapThreads\<close>

text \<open>Evaluation of the example page, step by step.\<close>

lemma thread_new_eval:
  "ThreadChannel_new tc_env0 (Str ''G'') thread_payload =
     \<lparr>perr = None, pfields = thread_fields, pcalls = []\<rparr>"
  by (simp add: ThreadChannel_new_def ThreadChannel_patch_def Channel_patch_def tc_env0_def
        thread_payload_def coalesce_def Let_def thread_fields_def)

lemma payload_id: "jsget thread_payload ''id'' = Str ''1''" "\<not> nullish thread_payload"
  by (simp_all add: thread_payload_def)

lemma fields_id: "thread_fields ''id'' = Str ''1''" "thread_fields ''parentId'' = Undefined"
  "thread_fields ''parentID'' = Str ''P''"
  by (simp_all add: thread_fields_def no_fields_def)

lemma add_eval:
  "ChannelManager_add (Some (ThreadChannel tc_env0)) thread_payload (Str ''G'') (Bool True) empty_st
     = (Inr 0, page_after)"
  by (simp add: ChannelManager_add_def CachedManager_add_def new_entry_def cache_flag_def
        ThreadChannel_def thread_new_eval payload_id fields_id coalesce_def empty_st_def page_after_def)

lemma threads_eval:
  "map_threads (Some (ThreadChannel tc_env0)) parent0 (Str ''G'') (Bool True) [thread_payload]
     Map.empty empty_st = (Inr Map.empty, page_after)"
proof -
  have "heap page_after 0 ''parentId'' = Undefined" by (simp add: page_after_def fields_id)
  moreover have "jsget parent0 ''id'' = Str ''P''" "truthy parent0" by (simp_all add: parent0_def)
  ultimately show ?thesis by (simp add: add_eval)
qed

lemma page_eval:
  "mapThreads (Some (ThreadChannel tc_env0)) raw_page parent0 Undefined (Bool True) empty_st =
    (Inr \<lparr>threads = Map.empty, hasMore = Bool True\<rparr>, page_after)"
proof -
  have a: "jsget raw_page ''threads'' = Arr [thread_payload]"
          "jsget raw_page ''members'' = Arr []"
          "jsget raw_page ''has_more'' = Bool True" "\<not> nullish raw_page"
    by (simp_all add: raw_page_def)
  have b: "coalesce Undefined (if nullish parent0 then Undefined else jsget parent0 ''guild'') = Str ''G''"
    by (simp add: parent0_def coalesce_def)
  have c: "coalesce (Bool True) (Bool False) = Bool True" by (simp add: coalesce_def)
  show ?thesis by (simp add: mapThreads_def a b c threads_eval del: map_threads.simps)
qed

text \<open>
  \<open>ThreadChannel._patch\<close> writes \<open>parentID\<close> and never \<open>parentId\<close>, the
  property \<open>_mapThreads\<close> reads: with a parent whose id is defined, no thread built
  by this class passes the filter, whatever the page holds.
\<close>

lemma patch_keeps_parentId:
  "pfields (ThreadChannel_patch env f d) ''parentId'' = f ''parentId''"
  by (simp add: ThreadChannel_patch_def Channel_patch_def Let_def split: option.splits)

lemma new_no_parentId:
  "pfields (ThreadChannel_new env g d) ''parentId'' = Undefined"
  by (simp add: ThreadChannel_new_def patch_keeps_parentId no_fields_def Let_def)

lemma add_keeps_no_parentId:
  assumes "\<forall>r. heap s r ''parentId'' = Undefined"
  shows "\<forall>r. heap (snd (ChannelManager_add (Some (ThreadChannel env)) raw g c s)) r ''parentId'' = Undefined"
  using assms
  by (auto simp add: ChannelManager_add_def CachedManager_add_def run_patch_def new_entry_def Let_def
        ThreadChannel_def patch_keeps_parentId new_no_parentId split: option.splits prod.splits)

lemma map_threads_drops_all:
  assumes "truthy parent" and "jsget parent ''id'' \<noteq> Undefined"
  shows "(\<forall>r. heap s r ''parentId'' = Undefined) \<Longrightarrow>
     map_threads (Some (ThreadChannel env)) parent g c raws coll s = (Inr coll', s') \<Longrightarrow> coll' = coll"
proof (induction raws arbitrary: s)
  case Nil
  then show ?case by simp
next
  case (Cons raw raws)
  obtain res s1 where a: "ChannelManager_add (Some (ThreadChannel env)) raw g c s = (res, s1)"
    by (cases "ChannelManager_add (Some (ThreadChannel env)) raw g c s")
  have inv: "\<forall>r. heap s1 r ''parentId'' = Undefined"
    using add_keeps_no_parentId [OF Cons.prems(1), of env raw g c] a by simp
  show ?case
  proof (cases res)
    case (Inl e)
    with Cons.prems(2) a show ?thesis by simp
  next
    case (Inr thread)
    have "\<not> strict_eq (heap s1 thread ''parentId'') (jsget parent ''id'')"
      using inv assms(2) by (cases "jsget parent ''id''") simp_all
    with Cons.prems(2) a Inr assms(1)
    have "map_threads (Some (ThreadChannel env)) parent g c raws coll s1 = (Inr coll', s')"
      by simp
    with Cons.IH [OF inv] show ?thesis by blast
  qed
qed

text \<open>
  C5 (parent-scope filtering), evaluated on the example page: the thread
  \<open>{id: "1", parent_id: "P"}\<close> is added to the cache and its \<open>parentID\<close> equals
  the id of the expected parent \<open>"P"\<close>, yet the returned collection is empty.
\<close>

theorem mapThreads_drops_matching_thread: 
  "fst (mapThreads (Some (ThreadChannel tc_env0)) raw_page parent0 Undefined (Bool True) empty_st)
     = Inr \<lparr>threads = Map.empty, hasMore = Bool True\<rparr>
   \<and> cache (snd (mapThreads (Some (ThreadChannel tc_env0)) raw_page parent0 Undefined (Bool True) empty_st))
       (Str ''1'') = Some 0
   \<and> heap (snd (mapThreads (Some (ThreadChannel tc_env0)) raw_page parent0 Undefined (Bool True) empty_st))
       0 ''parentID'' = jsget parent0 ''id''"
  by (simp add: page_eval) (simp add: page_after_def fields_id parent0_def)

text \<open>
  \<open>_mapThreads\<close> returns whenever the page is an object whose \<open>threads\<close> is an
  array of payloads the thread class accepts and whose \<open>members\<close> can be iterated
  and holds no \<open>null\<close>: the adds and the member loop then raise nothing.
\<close>

lemma add_returns:
  assumes "\<not> nullish d" and "perr (construct cls d [g]) = None"
      and "\<forall>f. perr (patch cls f d) = None"
  shows "\<exists>r s'. ChannelManager_add (Some cls) d g c s = (Inr r, s')"
  using assms
  by (auto simp add: ChannelManager_add_def CachedManager_add_def run_patch_def new_entry_def
        Let_def split: option.splits prod.splits)

lemma map_threads_returns:
  assumes "list_all (\<lambda>d. \<not> nullish d \<and> perr (construct cls d [g]) = None
                          \<and> (\<forall>f. perr (patch cls f d) = None)) raws"
  shows "\<exists>coll s'. map_threads (Some cls) p g c raws coll0 s = (Inr coll, s')"
  using assms
proof (induction raws arbitrary: coll0 s)
  case Nil
  show ?case by simp
next
  case (Cons d raws)
  from Cons.prems obtain r s1 where a: "ChannelManager_add (Some cls) d g c s = (Inr r, s1)"
    using add_returns [of d cls g c s] by auto
  from Cons.prems have rest: "list_all (\<lambda>d. \<not> nullish d \<and> perr (construct cls d [g]) = None
                          \<and> (\<forall>f. perr (patch cls f d) = None)) raws" by simp
  show ?case using a Cons.IH [OF rest] by simp
qed

lemma map_members_returns:
  "list_all (\<lambda>m. \<not> nullish m) ms \<Longrightarrow> \<exists>s'. map_members ms s = (None, s')"
proof (induction ms arbitrary: s)
  case Nil
  show ?case by simp
next
  case (Cons m ms)
  then show ?case by (simp split: option.splits)
qed

lemma page_with_get:
  "\<not> nullish (page_with extra)" "jsget (page_with extra) ''threads'' = Arr [thread_payload]"
  "iterate (jsget (page_with extra) ''members'') = Some []"
  "jsget (page_with [(''has_more'', v)]) ''has_more'' = v"
  "jsget (page_with []) ''has_more'' = Undefined"
  by (simp_all add: page_with_def)

lemma thread_payload_ok:
  "\<not> nullish thread_payload"
  "perr (construct (ThreadChannel tc_env0) thread_payload
          [coalesce Undefined (if nullish parent0 then Undefined else jsget parent0 ''guild'')]) = None"
  "perr (patch (ThreadChannel tc_env0) f thread_payload) = None"
proof -
  show "\<not> nullish thread_payload" by (simp add: thread_payload_def)
  have g: "coalesce Undefined (if nullish parent0 then Undefined else jsget parent0 ''guild'') = Str ''G''"
    by (simp add: parent0_def coalesce_def)
  show "perr (construct (ThreadChannel tc_env0) thread_payload
          [coalesce Undefined (if nullish parent0 then Undefined else jsget parent0 ''guild'')]) = None"
    by (simp add: g ThreadChannel_def thread_new_eval)
  show "perr (patch (ThreadChannel tc_env0) f thread_payload) = None"
    by (simp add: ThreadChannel_def ThreadChannel_patch_def thread_payload_def Let_def)
qed

text \<open>
  C8 (hasMore propagation): on every such page, whatever its \<open>has_more\<close>,
  \<open>_mapThreads\<close> returns, and the \<open>hasMore\<close> it returns is the response's
  \<open>has_more\<close> when that is neither \<open>null\<close> nor \<open>undefined\<close> (an absent
  property reads \<open>undefined\<close>), and \<open>false\<close> otherwise; and on any page and for any
  held class, whenever \<open>_mapThreads\<close> returns, its \<open>hasMore\<close> is that value.
\<close>

theorem hasMore_from_response:
  "(\<forall>raws ms cls.
      \<not> nullish raw \<and> jsget raw ''threads'' = Arr raws
      \<and> iterate (jsget raw ''members'') = Some ms \<and> list_all (\<lambda>m. \<not> nullish m) ms
      \<and> list_all (\<lambda>d. \<not> nullish d
            \<and> perr (construct cls d
                  [coalesce guild (if nullish parent then Undefined else jsget parent ''guild'')]) = None
            \<and> (\<forall>f. perr (patch cls f d) = None)) raws \<longrightarrow>
      (\<exists>coll s'. mapThreads (Some cls) raw parent guild c s =
         (Inr \<lparr>threads = coll,
               hasMore = (if nullish (jsget raw ''has_more'') then Bool False
                          else jsget raw ''has_more'')\<rparr>, s')))
   \<and> (\<forall>holds res s'. mapThreads holds raw parent guild c s = (Inr res, s') \<longrightarrow>
        hasMore res = (if nullish (jsget raw ''has_more'') then Bool False
                       else jsget raw ''has_more''))"
proof (intro conjI allI impI)
  fix raws ms and cls :: eclass
  let ?g = "coalesce guild (if nullish parent then Undefined else jsget parent ''guild'')"
  assume h: "\<not> nullish raw \<and> jsget raw ''threads'' = Arr raws
      \<and> iterate (jsget raw ''members'') = Some ms \<and> list_all (\<lambda>m. \<not> nullish m) ms
      \<and> list_all (\<lambda>d. \<not> nullish d \<and> perr (construct cls d [?g]) = None
            \<and> (\<forall>f. perr (patch cls f d) = None)) raws"
  then obtain coll s1 where a: "map_threads (Some cls) parent ?g c raws Map.empty s = (Inr coll, s1)"
    using map_threads_returns [of cls ?g raws parent c Map.empty s] by blast
  from h obtain s2 where b: "map_members ms s1 = (None, s2)"
    using map_members_returns [of ms s1] by blast
  have "mapThreads (Some cls) raw parent guild c s =
         (Inr \<lparr>threads = coll,
               hasMore = (if nullish (jsget raw ''has_more'') then Bool False
                          else jsget raw ''has_more'')\<rparr>, s2)"
    using h a b by (simp add: mapThreads_def coalesce_def)
  then show "\<exists>coll s'. mapThreads (Some cls) raw parent guild c s =
         (Inr \<lparr>threads = coll,
               hasMore = (if nullish (jsget raw ''has_more'') then Bool False
                          else jsget raw ''has_more'')\<rparr>, s')" by blast
next
  fix holds res s'
  assume "mapThreads holds raw parent guild c s = (Inr res, s')"
  then show "hasMore res = (if nullish (jsget raw ''has_more'') then Bool False
                       else jsget raw ''has_more'')"
    by (auto simp add: mapThreads_def coalesce_def
          split: if_splits jsval.splits prod.splits sum.splits option.splits)
qed

theorem hasMore_from_response_witness:
  "(\<exists>coll s'. mapThreads (Some (ThreadChannel tc_env0)) (page_with [(''has_more'', Bool True)])
        parent0 Undefined (Bool True) empty_st = (Inr \<lparr>threads = coll, hasMore = Bool True\<rparr>, s'))
   \<and> (\<exists>coll s'. mapThreads (Some (ThreadChannel tc_env0)) (page_with [(''has_more'', Bool False)])
        parent0 Undefined (Bool True) empty_st = (Inr \<lparr>threads = coll, hasMore = Bool False\<rparr>, s'))
   \<and> (\<exists>coll s'. mapThreads (Some (ThreadChannel tc_env0)) (page_with [(''has_more'', Null)])
        parent0 Undefined (Bool True) empty_st = (Inr \<lparr>threads = coll, hasMore = Bool False\<rparr>, s'))
   \<and> (\<exists>coll s'. mapThreads (Some (ThreadChannel tc_env0)) (page_with [])
        parent0 Undefined (Bool True) empty_st = (Inr \<lparr>threads = coll, hasMore = Bool False\<rparr>, s'))"
proof -
  have pre: "\<not> nullish (page_with extra) \<and> jsget (page_with extra) ''threads'' = Arr [thread_payload]
      \<and> iterate (jsget (page_with extra) ''members'') = Some [] \<and> list_all (\<lambda>m. \<not> nullish m) []
      \<and> list_all (\<lambda>d. \<not> nullish d
            \<and> perr (construct (ThreadChannel tc_env0) d
                  [coalesce Undefined (if nullish parent0 then Undefined else jsget parent0 ''guild'')]) = None
            \<and> (\<forall>f. perr (patch (ThreadChannel tc_env0) f d) = None)) [thread_payload]" for extra
    by (simp add: page_with_get thread_payload_ok)
  have t: "\<exists>coll s'. mapThreads (Some (ThreadChannel tc_env0)) (page_with extra) parent0 Undefined
              (Bool True) empty_st =
         (Inr \<lparr>threads = coll,
               hasMore = (if nullish (jsget (page_with extra) ''has_more'') then Bool False
                          else jsget (page_with extra) ''has_more'')\<rparr>, s')" for extra
    using hasMore_from_response [of "page_with extra" Undefined parent0 "Bool True" empty_st] pre [of extra]
    by blast
  show ?thesis
    using t [of "[(''has_more'', Bool True)]"] t [of "[(''has_more'', Bool False)]"]
          t [of "[(''has_more'', Null)]"] t [of "[]"]
    by (simp add: page_with_get)
qed

section \<open>Properties of ThreadManager.fetchArchived\<close>

text \<open>No step of the add protocol or of \<open>_mapThreads\<close> issues a request.\<close>

lemma sent_run_patch: "sent (snd (run_patch h r d s)) = sent s"
  by (simp add: run_patch_def Let_def split: option.splits)

lemma sent_CachedManager_add: "sent (snd (CachedManager_add h d c i ex s)) = sent s"
  by (auto simp add: CachedManager_add_def run_patch_def new_entry_def Let_def
        split: option.splits prod.splits)

lemma sent_map_threads: "sent (snd (map_threads h p g c raws coll s)) = sent s"
proof (induction raws arbitrary: coll s)
  case Nil
  show ?case by simp
next
  case (Cons raw raws)
  obtain res s1 where a: "ChannelManager_add h raw g c s = (res, s1)"
    by (cases "ChannelManager_add h raw g c s")
  have b: "sent s1 = sent s"
    using sent_CachedManager_add [of h raw c Undefined "[g]" s] a
    by (simp add: ChannelManager_add_def)
  show ?case using a b Cons.IH by (cases res) simp_all
qed

lemma sent_map_members: "sent (snd (map_members ms s)) = sent s"
proof (induction ms arbitrary: s)
  case Nil
  show ?case by simp
next
  case (Cons m ms)
  show ?case using Cons.IH by (simp split: option.splits)
qed

lemma sent_mapThreads: "sent (snd (mapThreads h raw p g c s)) = sent s"
proof (cases "nullish raw")
  case True
  then show ?thesis by (simp add: mapThreads_def)
next
  case False
  show ?thesis
  proof (cases "jsget raw ''threads''")
    case (Arr raws)
    let ?g = "coalesce g (if nullish p then Undefined else jsget p ''guild'')"
    obtain r1 s1 where a: "map_threads h p ?g c raws Map.empty s = (r1, s1)"
      by (cases "map_threads h p ?g c raws Map.empty s")
    have b: "sent s1 = sent s" using sent_map_threads [of h p ?g c raws Map.empty s] a by simp
    show ?thesis
    proof (cases r1)
      case (Inl e)
      with False Arr a b show ?thesis by (simp add: mapThreads_def)
    next
      case (Inr coll)
      show ?thesis
      proof (cases "iterate (jsget raw ''members'')")
        case None
        with False Arr a b Inr show ?thesis by (simp add: mapThreads_def)
      next
        case (Some ms)
        obtain e2 s2 where c: "map_members ms s1 = (e2, s2)" by (cases "map_members ms s1")
        have d: "sent s2 = sent s1" using sent_map_members [of ms s1] c by simp
        from False Arr a b Inr Some c d show ?thesis
          by (cases e2) (simp_all add: mapThreads_def)
      qed
    qed
  qed (simp_all add: mapThreads_def False)
qed

lemma digits_0: "digits_of 0 = ''0''"
  by code_simp

lemma snow1: "snowflake_like (Str ''1234567890123456'')"
  by (simp add: snowflake_like_def is_digit_def)

lemma snow2: "\<not> snowflake_like (Num 0)" "\<not> snowflake_like (Str ''x'')"
  by (simp_all add: snowflake_like_def is_digit_def digits_0)

lemma own_private_type: "own_private opts \<Longrightarrow> ao_type opts = Str ''private''"
  by (cases "ao_type opts") (auto simp add: own_private_def split: if_splits)

lemma empty_page_eval:
  "mapThreads h (Obj [(''threads'', Arr []), (''members'', Arr [])]) p g c s =
     (Inr \<lparr>threads = Map.empty, hasMore = Bool False\<rparr>, s)"
  by (simp add: mapThreads_def coalesce_def)

lemma own_private_before: "own_private (private_before b)"
  by (simp add: own_private_def private_before_def)

lemma channel0_id: "jsget (te_channel thread_env0) ''id'' = Str ''P''"
  by (simp add: thread_env0_def parent0_def)

text \<open>
  C6 (identity-cursor validation) fails as stated. With type \<open>'private'\<close> and
  \<open>fetchAll\<close> unset, \<open>before = 0\<close> (a timestamp, which resolves to no cached thread)
  raises nothing: the page is fetched with \<open>before\<close> \<open>undefined\<close>. Nor does the
  snowflake-like string \<open>"1234567890123456"\<close>, which resolves to no cached thread
  either: the page is fetched with that string as cursor.
\<close>

theorem private_archive_cursor_counterexample:
  "fst (fetchArchived thread_env0 (private_before (Num 0)) (Bool True) empty_st)
     = Inr \<lparr>threads = Map.empty, hasMore = Bool False\<rparr>
   \<and> sent (snd (fetchArchived thread_env0 (private_before (Num 0)) (Bool True) empty_st))
     = [private_request (Str ''P'') Undefined Undefined]
   \<and> te_resolve thread_env0 (Num 0) = Null
   \<and> te_resolve thread_env0 (Str ''1234567890123456'') = Null
   \<and> fst (fetchArchived thread_env0 (private_before (Str ''1234567890123456'')) (Bool True) empty_st)
     = Inr \<lparr>threads = Map.empty, hasMore = Bool False\<rparr>
   \<and> sent (snd (fetchArchived thread_env0 (private_before (Str ''1234567890123456'')) (Bool True) empty_st))
     = [private_request (Str ''P'') (Str ''1234567890123456'') Undefined]"
proof -
  have a: "before_cursor thread_env0 (Num 0) empty_st
             = Inr (Undefined, Str ''1970-01-01T00:00:00.000Z'')"
    by (simp add: before_cursor_def snow2 thread_env0_def)
  have b: "before_cursor thread_env0 (Str ''1234567890123456'') empty_st
             = Inr (Str ''1234567890123456'', Undefined)"
    by (simp add: before_cursor_def snow1 archived_iso_def thread_env0_def)
  have r: "archived_request thread_env0 (private_before x) cur
             = private_request (Str ''P'') (fst cur) Undefined" for x cur
    by (simp add: archived_request_def private_request_def own_private_before channel0_id)
       (simp add: private_before_def)
  have api: "te_api thread_env0 q = Inr (Obj [(''threads'', Arr []), (''members'', Arr [])])" for q
    by (simp add: thread_env0_def)
  have c: "ao_before (private_before x) = x" for x by (simp add: private_before_def)
  have d: "te_resolve thread_env0 v = Null" for v
    by (simp add: thread_env0_def)
  show ?thesis
    by (simp add: fetchArchived_def c a b r api empty_page_eval d) (simp add: empty_st_def)
qed

text \<open>
  C6 as amended. With type \<open>'private'\<close> and \<open>fetchAll\<close> false, a \<open>before\<close>
  that is given is never checked against the cache. If it is a \<open>ThreadChannel\<close> or
  prints as 16 to 19 digits, the request is sent with \<open>before\<close> set to whatever
  \<open>resolveId\<close> answers for it (unless converting the archive time of a resolved
  thread throws). If it is anything else that converts to a date, the request is sent
  with \<open>before\<close> \<open>undefined\<close>. Only a value that is neither and does not convert
  to a date raises the \<open>INVALID_TYPE\<close> error, before any request.
\<close>

theorem private_archive_cursor:
  assumes "own_private opts" and "ao_before opts \<noteq> Undefined"
  shows "((te_instanceofThread env (ao_before opts) \<or> snowflake_like (ao_before opts))
          \<and> archived_iso env (ao_before opts) s \<noteq> Inl RangeError \<longrightarrow>
            sent (snd (fetchArchived env opts c s)) =
              sent s @ [private_request (jsget (te_channel env) ''id'')
                          (te_resolveId env (ao_before opts)) (ao_limit opts)])
       \<and> (\<not> (te_instanceofThread env (ao_before opts) \<or> snowflake_like (ao_before opts))
          \<and> te_toISOString env (ao_before opts) \<noteq> None \<longrightarrow>
            sent (snd (fetchArchived env opts c s)) =
              sent s @ [private_request (jsget (te_channel env) ''id'') Undefined (ao_limit opts)])
       \<and> (\<not> (te_instanceofThread env (ao_before opts) \<or> snowflake_like (ao_before opts))
          \<and> te_toISOString env (ao_before opts) = None \<longrightarrow>
            fetchArchived env opts c s =
              (Inl (LibTypeError ''INVALID_TYPE'' ''before''
                      ''DateResolvable or ThreadChannelResolvable''), s))"
proof -
  have t: "ao_type opts = Str ''private''" using assms(1) by (rule own_private_type)
  have u: "typeof (ao_before opts) \<noteq> ''undefined''"
    using assms(2) by (cases "ao_before opts") simp_all
  have ok: "archived_iso env (ao_before opts) s \<noteq> Inl RangeError \<Longrightarrow>
       \<exists>ts. archived_iso env (ao_before opts) s = Inr ts"
    by (auto simp add: archived_iso_def split: jsval.splits if_splits option.splits)
  show ?thesis
    using assms(1) t u ok
    by (auto simp add: fetchArchived_def before_cursor_def archived_request_def private_request_def
          Let_def sent_mapThreads split: sum.splits option.splits)
qed

theorem private_archive_cursor_witness:
  "sent (snd (fetchArchived thread_env0 (private_before (Str ''1234567890123456'')) (Bool True) empty_st))
     = [private_request (Str ''P'') (Str ''1234567890123456'') Undefined]
   \<and> sent (snd (fetchArchived thread_env0 (private_before (Num 0)) (Bool True) empty_st))
     = [private_request (Str ''P'') Undefined Undefined]
   \<and> fetchArchived thread_env0 (private_before (Str ''x'')) (Bool True) empty_st
     = (Inl (LibTypeError ''INVALID_TYPE'' ''before''
               ''DateResolvable or ThreadChannelResolvable''), empty_st)"
proof -
  have c: "ao_before (private_before x) = x" "ao_limit (private_before x) = Undefined" for x
    by (simp_all add: private_before_def)
  have n: "ao_before (private_before (Str ''1234567890123456'')) \<noteq> Undefined"
          "ao_before (private_before (Num 0)) \<noteq> Undefined"
          "ao_before (private_before (Str ''x'')) \<noteq> Undefined"
    by (simp_all add: c)
  have i: "archived_iso thread_env0 (Str ''1234567890123456'') empty_st \<noteq> Inl RangeError"
    by (simp add: archived_iso_def thread_env0_def)
  have t: "te_instanceofThread thread_env0 v = False"
          "te_toISOString thread_env0 (Num 0) \<noteq> None"
          "te_toISOString thread_env0 (Str ''x'') = None"
          "te_resolveId thread_env0 (Str ''1234567890123456'') = Str ''1234567890123456''" for v
    by (simp_all add: thread_env0_def)
  have e: "sent empty_st = []" by (simp add: empty_st_def)
  from private_archive_cursor [OF own_private_before n(1), of thread_env0 empty_st "Bool True"]
  have w1: "sent (snd (fetchArchived thread_env0 (private_before (Str ''1234567890123456'')) (Bool True) empty_st))
     = [private_request (Str ''P'') (Str ''1234567890123456'') Undefined]"
    by (simp add: c snow1 i t channel0_id e)
  from private_archive_cursor [OF own_private_before n(2), of thread_env0 empty_st "Bool True"]
  have w2: "sent (snd (fetchArchived thread_env0 (private_before (Num 0)) (Bool True) empty_st))
     = [private_request (Str ''P'') Undefined Undefined]"
    by (simp add: c snow2 t channel0_id e)
  from private_archive_cursor [OF own_private_before n(3), of thread_env0 empty_st "Bool True"]
  have w3: "fetchArchived thread_env0 (private_before (Str ''x'')) (Bool True) empty_st
     = (Inl (LibTypeError ''INVALID_TYPE'' ''before''
               ''DateResolvable or ThreadChannelResolvable''), empty_st)"
    by (simp add: c snow2 t)
  show ?thesis using w1 w2 w3 by blast
qed

section \<open>Resolution before the network\<close>

text \<open>A listing issues exactly one request, its own.\<close>

lemma sent_add_invites: "sent (snd (add_invites env c invites col s)) = sent s"
proof (induction invites arbitrary: col s)
  case Nil
  show ?case by simp
next
  case (Cons invite invites)
  obtain res s1 where a: "GuildInviteManager_add env invite c s = (res, s1)"
    by (cases "GuildInviteManager_add env invite c s")
  have b: "sent s1 = sent s"
    using a sent_CachedManager_add [of "ie_holds env" invite c "jsget invite ''code''" "[ie_guild env]" s]
    by (auto simp add: GuildInviteManager_add_def split: if_splits)
  show ?case using a b Cons.IH by (cases res) simp_all
qed

lemma sent_fetch_list:
  "sent (snd (fetch_list env route c s)) = sent s @ [Request ''get'' route Undefined]"
  by (simp add: fetch_list_def Let_def sent_add_invites split: sum.splits jsval.splits)

lemma sent_fetchMany:
  "sent (snd (fetchMany env c s))
     = sent s @ [Request ''get'' [Str ''guilds'', ie_guild_id env, Str ''invites''] Undefined]"
  by (simp add: fetchMany_def sent_fetch_list)

lemma fetchSingle_miss:
  assumes "truthy force \<or> cache s code = None"
  shows "sent (snd (fetchSingle env code c force s))
     = sent s @ [Request ''get'' [Str ''guilds'', ie_guild_id env, Str ''invites''] Undefined]"
proof -
  obtain res s1 where a: "fetchMany env c s = (res, s1)" by (cases "fetchMany env c s")
  have b: "sent s1 = sent s @ [Request ''get'' [Str ''guilds'', ie_guild_id env, Str ''invites''] Undefined]"
    using sent_fetchMany [of env c s] a by simp
  have m: "(if \<not> truthy force then cache s code else None) = None" using assms by auto
  show ?thesis using a b
    by (cases res) (simp_all add: fetchSingle_def m split: option.splits)
qed

text \<open>
  Where the code checks the resolved identifier, a failed resolution raises the
  library's error with the state as it was, so with no request issued: the string form
  of \<open>GuildInviteManager.fetch\<close>, \<open>StageInstanceManager.create\<close> and
  \<open>ReactionUserManager.remove\<close>.
\<close>

lemma fetch_string_unresolved:
  assumes "typeof options = ''string''" and "truthy options"
      and "\<not> truthy (ie_resolveInviteCode env options)"
  shows "GuildInviteManager_fetch env options s = (Inl (LibError ''INVITE_RESOLVE_CODE''), s)"
  using assms by (simp add: GuildInviteManager_fetch_def)

lemma create_unresolved:
  assumes "typeof options = ''object''" and "\<not> nullish options"
      and "\<not> truthy (se_resolveID env (jsget options ''channel''))"
  shows "StageInstanceManager_create env options s = (Inl (LibError ''STAGE_CHANNEL_RESOLVE''), s)"
  using assms by (simp add: StageInstanceManager_create_def)

lemma remove_unresolved:
  assumes "\<not> truthy (re_resolveId env (if user = Undefined then re_client_user env else user))"
  shows "ReactionUserManager_remove env user s = (Inl (LibError ''REACTION_RESOLVE_USER''), s)"
  using assms by (simp add: ReactionUserManager_remove_def)

text \<open>
  The options form of \<open>GuildInviteManager.fetch\<close> tests the code it is given
  (\<open>options.code\<close>) and hands what \<open>DataResolver.resolveInviteCode\<close> makes of it
  to \<open>_fetchSingle\<close> as it is. Were the resolver to answer a truthy code with a falsy
  value, the guild's invites would be requested all the same; so the property of this
  path below is stated for a resolver that answers a truthy code with a truthy value.
\<close>

lemma options_code_passed_unchecked:
  assumes "truthy options" and "typeof options \<noteq> ''string''"
      and "truthy (jsget options ''code'')"
      and "\<not> truthy (ie_resolveInviteCode env (jsget options ''code''))"
      and "truthy (jsget options ''force'')
           \<or> cache s (ie_resolveInviteCode env (jsget options ''code'')) = None"
  shows "sent (snd (GuildInviteManager_fetch env options s))
           = sent s @ [Request ''get'' [Str ''guilds'', ie_guild_id env, Str ''invites''] Undefined]"
proof -
  let ?code = "ie_resolveInviteCode env (jsget options ''code'')"
  obtain res s1 where a:
    "fetchSingle env ?code (jsget options ''cache'') (jsget options ''force'') s = (res, s1)"
    by (cases "fetchSingle env ?code (jsget options ''cache'') (jsget options ''force'') s")
  have b: "sent s1 = sent s @ [Request ''get'' [Str ''guilds'', ie_guild_id env, Str ''invites''] Undefined]"
    using fetchSingle_miss [OF assms(5), of env "jsget options ''cache''"] a by simp
  show ?thesis using assms(1-3) a b
    by (cases res) (simp_all add: GuildInviteManager_fetch_def lift_one_def)
qed






section \<open>Properties of ClientPresence.set\<close>

text \<open>
  The loop over a list of shard ids stops at the first id that is not registered; the
  ids before it have been sent to.
\<close>

lemma send_each_eq:
  "send_each ids payload s =
     (if list_all (\<lambda>k. k \<in> set (ps_shards s)) ids then None else Some NativeTypeError,
      s\<lparr>ps_delivered := ps_delivered s
           @ map (\<lambda>k. (k, payload)) (takeWhile (\<lambda>k. k \<in> set (ps_shards s)) ids)\<rparr>)"
proof (induction ids arbitrary: s)
  case Nil
  show ?case by simp
next
  case (Cons k ids)
  show ?case by (simp add: send_to_def Cons.IH)
qed

lemma once_each:
  "distinct xs \<Longrightarrow> k \<in> set xs \<Longrightarrow> length (filter (\<lambda>d. fst d = k) (map (\<lambda>k. (k, p)) xs)) = 1"
proof (induction xs)
  case Nil
  then show ?case by simp
next
  case (Cons x xs)
  have none: "x \<notin> set xs \<Longrightarrow> filter (\<lambda>d. fst d = x) (map (\<lambda>k. (k, p)) xs) = []"
    by (induction xs) auto
  show ?case
  proof (cases "k = x")
    case True
    with Cons.prems none show ?thesis by simp
  next
    case False
    with Cons show ?thesis by simp
  qed
qed

text \<open>Evaluation of the example inputs.\<close>

lemma idle_parse: "ClientPresence_parse presence_env0 (ps_self presence_st0) (idle_to t) = Inr idle_packet"
  by (simp add: ClientPresence_parse_def presence_st0_def idle_to_def idle_packet_def no_fields_def)

lemma bad_parse:
  "ClientPresence_parse presence_env0 (ps_self presence_st0) bad_activity
     = Inl (LibTypeError ''INVALID_TYPE'' ''activities[0].name'' ''string'')"
  by (simp add: ClientPresence_parse_def bad_activity_def digits_0)

lemma idle_target: "pd_shardID (idle_to t) = t"
  by (simp add: idle_to_def)

lemma st0_fields: "ps_shards presence_st0 = [Num 0, Num 1]" "ps_delivered presence_st0 = []"
  "ps_self presence_st0 ''status'' = Str ''online''"
  by (simp_all add: presence_st0_def)

lemma idle_patch: "Presence_patch f idle_packet ''status'' = Str ''idle''"
  by (simp add: Presence_patch_def merge_fields_def idle_packet_def)

text \<open>
  C2 (dispatch completeness) fails as stated for a list: with shards \<open>0\<close> and \<open>1\<close>
  registered, the target \<open>[0, 5]\<close> raises (the runtime's \<open>TypeError\<close>, from calling
  \<open>send\<close> on \<open>undefined\<close>) after the payload has been delivered to shard \<open>0\<close>.
\<close>

theorem dispatch_by_target_counterexample:
  "Num 5 \<notin> set (ps_shards presence_st0)
   \<and> fst (ClientPresence_set presence_env0 (idle_to (Arr [Num 0, Num 5])) presence_st0)
       = Inl NativeTypeError
   \<and> ps_delivered (snd (ClientPresence_set presence_env0 (idle_to (Arr [Num 0, Num 5])) presence_st0))
       = [(Num 0, Obj [(''op'', Num 3), (''d'', idle_packet)])]"
  by (simp add: ClientPresence_set_def idle_parse idle_target send_to_def st0_fields Let_def)
     (simp add: presence_env0_def status_payload_def)

text \<open>
  C2 as amended. Once the presence has parsed, \<open>set\<close> with no \<open>shardID\<close> delivers
  the payload to every registered shard, in registration order, once each; with a list
  it delivers, in order, to the ids that precede the first unregistered one, which is
  all of the list when every id is registered, and raises the runtime's \<open>TypeError\<close>
  exactly when some listed id is unregistered; with a single id it delivers to that
  shard, or raises and delivers nothing when the id is unregistered.
\<close>

theorem dispatch_by_target:
  assumes "ClientPresence_parse env (ps_self s) p = Inr packet"
  shows
    "(pd_shardID p = Undefined \<longrightarrow>
        ClientPresence_set env p s =
          (Inr (), s\<lparr>ps_self := Presence_patch (ps_self s) packet,
                     ps_delivered := ps_delivered s
                       @ map (\<lambda>k. (k, status_payload env packet)) (ps_shards s)\<rparr>)
        \<and> (distinct (ps_shards s) \<longrightarrow>
             (\<forall>k \<in> set (ps_shards s).
                length (filter (\<lambda>d. fst d = k)
                  (map (\<lambda>k. (k, status_payload env packet)) (ps_shards s))) = 1)))
   \<and> (\<forall>ids. pd_shardID p = Arr ids \<longrightarrow>
        ClientPresence_set env p s =
          (if unresolved_target (Arr ids) s then Inl NativeTypeError else Inr (),
           s\<lparr>ps_self := Presence_patch (ps_self s) packet,
             ps_delivered := ps_delivered s
               @ map (\<lambda>k. (k, status_payload env packet))
                   (takeWhile (\<lambda>k. k \<in> set (ps_shards s)) ids)\<rparr>)
        \<and> (\<not> unresolved_target (Arr ids) s \<longrightarrow>
             takeWhile (\<lambda>k. k \<in> set (ps_shards s)) ids = ids))
   \<and> (pd_shardID p \<noteq> Undefined \<and> (\<forall>ids. pd_shardID p \<noteq> Arr ids) \<longrightarrow>
        ClientPresence_set env p s =
          (if unresolved_target (pd_shardID p) s
           then (Inl NativeTypeError, s\<lparr>ps_self := Presence_patch (ps_self s) packet\<rparr>)
           else (Inr (), s\<lparr>ps_self := Presence_patch (ps_self s) packet,
                           ps_delivered := ps_delivered s
                             @ [(pd_shardID p, status_payload env packet)]\<rparr>)))"
proof (intro conjI impI allI)
  assume "pd_shardID p = Undefined"
  then show "ClientPresence_set env p s =
          (Inr (), s\<lparr>ps_self := Presence_patch (ps_self s) packet,
                     ps_delivered := ps_delivered s
                       @ map (\<lambda>k. (k, status_payload env packet)) (ps_shards s)\<rparr>)"
    using assms by (simp add: ClientPresence_set_def broadcast_def status_payload_def Let_def)
next
  assume "distinct (ps_shards s)"
  then show "\<forall>k \<in> set (ps_shards s).
                length (filter (\<lambda>d. fst d = k)
                  (map (\<lambda>k. (k, status_payload env packet)) (ps_shards s))) = 1"
    by (blast intro: once_each)
next
  fix ids assume "pd_shardID p = Arr ids"
  then show "ClientPresence_set env p s =
          (if unresolved_target (Arr ids) s then Inl NativeTypeError else Inr (),
           s\<lparr>ps_self := Presence_patch (ps_self s) packet,
             ps_delivered := ps_delivered s
               @ map (\<lambda>k. (k, status_payload env packet))
                   (takeWhile (\<lambda>k. k \<in> set (ps_shards s)) ids)\<rparr>)"
    using assms
    by (simp add: ClientPresence_set_def send_each_eq status_payload_def unresolved_target_def Let_def)
next
  fix ids assume "\<not> unresolved_target (Arr ids) s"
  then show "takeWhile (\<lambda>k. k \<in> set (ps_shards s)) ids = ids"
    by (simp add: unresolved_target_def list_all_iff)
next
  assume a: "pd_shardID p \<noteq> Undefined \<and> (\<forall>ids. pd_shardID p \<noteq> Arr ids)"
  then have t: "typeof (pd_shardID p) \<noteq> ''undefined''" by (cases "pd_shardID p") simp_all
  show "ClientPresence_set env p s =
          (if unresolved_target (pd_shardID p) s
           then (Inl NativeTypeError, s\<lparr>ps_self := Presence_patch (ps_self s) packet\<rparr>)
           else (Inr (), s\<lparr>ps_self := Presence_patch (ps_self s) packet,
                           ps_delivered := ps_delivered s
                             @ [(pd_shardID p, status_payload env packet)]\<rparr>))"
    using assms a t
    by (cases "pd_shardID p")
       (simp_all add: ClientPresence_set_def send_to_def status_payload_def unresolved_target_def Let_def)
qed

theorem dispatch_by_target_witness:
  "ClientPresence_set presence_env0 (idle_to Undefined) presence_st0
     = (Inr (), presence_st0\<lparr>ps_self := Presence_patch (ps_self presence_st0) idle_packet,
          ps_delivered := [(Num 0, status_payload presence_env0 idle_packet),
                           (Num 1, status_payload presence_env0 idle_packet)]\<rparr>)
   \<and> ClientPresence_set presence_env0 (idle_to (Arr [Num 1, Num 0])) presence_st0
     = (Inr (), presence_st0\<lparr>ps_self := Presence_patch (ps_self presence_st0) idle_packet,
          ps_delivered := [(Num 1, status_payload presence_env0 idle_packet),
                           (Num 0, status_payload presence_env0 idle_packet)]\<rparr>)
   \<and> ClientPresence_set presence_env0 (idle_to (Arr [Num 1, Num 5, Num 0])) presence_st0
     = (Inl NativeTypeError,
        presence_st0\<lparr>ps_self := Presence_patch (ps_self presence_st0) idle_packet,
          ps_delivered := [(Num 1, status_payload presence_env0 idle_packet)]\<rparr>)
   \<and> ClientPresence_set presence_env0 (idle_to (Num 1)) presence_st0
     = (Inr (), presence_st0\<lparr>ps_self := Presence_patch (ps_self presence_st0) idle_packet,
          ps_delivered := [(Num 1, status_payload presence_env0 idle_packet)]\<rparr>)
   \<and> ClientPresence_set presence_env0 (idle_to (Num 5)) presence_st0
     = (Inl NativeTypeError,
        presence_st0\<lparr>ps_self := Presence_patch (ps_self presence_st0) idle_packet\<rparr>)"
proof -
  note t = dispatch_by_target [OF idle_parse]
  have a: "ClientPresence_set presence_env0 (idle_to Undefined) presence_st0
     = (Inr (), presence_st0\<lparr>ps_self := Presence_patch (ps_self presence_st0) idle_packet,
          ps_delivered := [(Num 0, status_payload presence_env0 idle_packet),
                           (Num 1, status_payload presence_env0 idle_packet)]\<rparr>)"
    using t [of Undefined] by (simp add: idle_target st0_fields)
  have b: "ClientPresence_set presence_env0 (idle_to (Arr [Num 1, Num 0])) presence_st0
     = (Inr (), presence_st0\<lparr>ps_self := Presence_patch (ps_self presence_st0) idle_packet,
          ps_delivered := [(Num 1, status_payload presence_env0 idle_packet),
                           (Num 0, status_payload presence_env0 idle_packet)]\<rparr>)"
    using t [of "Arr [Num 1, Num 0]"] by (simp add: idle_target st0_fields unresolved_target_def)
  have c: "ClientPresence_set presence_env0 (idle_to (Arr [Num 1, Num 5, Num 0])) presence_st0
     = (Inl NativeTypeError,
        presence_st0\<lparr>ps_self := Presence_patch (ps_self presence_st0) idle_packet,
          ps_delivered := [(Num 1, status_payload presence_env0 idle_packet)]\<rparr>)"
    using t [of "Arr [Num 1, Num 5, Num 0]"]
    by (simp add: idle_target st0_fields unresolved_target_def)
  have d: "ClientPresence_set presence_env0 (idle_to (Num 1)) presence_st0
     = (Inr (), presence_st0\<lparr>ps_self := Presence_patch (ps_self presence_st0) idle_packet,
          ps_delivered := [(Num 1, status_payload presence_env0 idle_packet)]\<rparr>)"
    using t [of "Num 1"] by (simp add: idle_target st0_fields unresolved_target_def)
  have e: "ClientPresence_set presence_env0 (idle_to (Num 5)) presence_st0
     = (Inl NativeTypeError,
        presence_st0\<lparr>ps_self := Presence_patch (ps_self presence_st0) idle_packet\<rparr>)"
    using t [of "Num 5"] by (simp add: idle_target st0_fields unresolved_target_def)
  show ?thesis using a b c d e by blast
qed

text \<open>
  C3 (atomicity on resolution failure) fails as stated: the target \<open>5\<close> names no
  registered shard, the call raises, and the local presence has gone from \<open>online\<close>
  to \<open>idle\<close>.
\<close>

theorem local_state_on_resolution_failure_counterexample:
  "Num 5 \<notin> set (ps_shards presence_st0)
   \<and> fst (ClientPresence_set presence_env0 (idle_to (Num 5)) presence_st0) = Inl NativeTypeError
   \<and> ps_self presence_st0 ''status'' = Str ''online''
   \<and> ps_self (snd (ClientPresence_set presence_env0 (idle_to (Num 5)) presence_st0)) ''status''
       = Str ''idle''"
  by (simp add: ClientPresence_set_def idle_parse idle_target send_to_def st0_fields Let_def
        idle_patch)

text \<open>
  C3 as amended. Where a manager operation checks the identifier it resolved
  (\<open>StageInstanceManager.create\<close> and \<open>edit\<close>, \<open>ReactionUserManager.remove\<close>,
  \<open>GuildInviteManager.fetch\<close> of a string), a failed resolution raises with the local
  state exactly as it was. \<open>ClientPresence.set\<close> patches the local presence with the
  parsed packet before it resolves the target: whenever parsing succeeds the local
  presence holds the packet's fields afterwards, also when the target names a partition
  with no live handle and the call raises. Of \<open>set\<close>, only a failure of \<open>_parse\<close>
  raises with the state exactly as it was.
\<close>

theorem local_state_on_resolution_failure:
  "(typeof options = ''object'' \<and> \<not> nullish options
      \<and> \<not> truthy (se_resolveID senv (jsget options ''channel'')) \<longrightarrow>
        StageInstanceManager_create senv options ms = (Inl (LibError ''STAGE_CHANNEL_RESOLVE''), ms))
   \<and> (typeof options = ''object'' \<and> \<not> truthy (se_resolveID senv channel) \<longrightarrow>
        StageInstanceManager_edit senv channel options ms
          = (Inl (LibError ''STAGE_CHANNEL_RESOLVE''), ms))
   \<and> (\<not> truthy (re_resolveId renv (if user = Undefined then re_client_user renv else user)) \<longrightarrow>
        ReactionUserManager_remove renv user ms = (Inl (LibError ''REACTION_RESOLVE_USER''), ms))
   \<and> (typeof code = ''string'' \<and> truthy code \<and> \<not> truthy (ie_resolveInviteCode ienv code) \<longrightarrow>
        GuildInviteManager_fetch ienv code ms = (Inl (LibError ''INVITE_RESOLVE_CODE''), ms))
   \<and> (\<forall>e. ClientPresence_parse env (ps_self s) p = Inl e \<longrightarrow>
        ClientPresence_set env p s = (Inl e, s))
   \<and> (\<forall>packet. ClientPresence_parse env (ps_self s) p = Inr packet \<longrightarrow>
        ps_self (snd (ClientPresence_set env p s)) = Presence_patch (ps_self s) packet
        \<and> (unresolved_target (pd_shardID p) s \<longrightarrow>
             fst (ClientPresence_set env p s) = Inl NativeTypeError))"
proof (intro conjI impI allI)
  assume "typeof options = ''object'' \<and> \<not> nullish options
      \<and> \<not> truthy (se_resolveID senv (jsget options ''channel''))"
  then show "StageInstanceManager_create senv options ms
               = (Inl (LibError ''STAGE_CHANNEL_RESOLVE''), ms)"
    by (simp add: create_unresolved)
next
  assume "typeof options = ''object'' \<and> \<not> truthy (se_resolveID senv channel)"
  then show "StageInstanceManager_edit senv channel options ms
               = (Inl (LibError ''STAGE_CHANNEL_RESOLVE''), ms)"
    by (simp add: StageInstanceManager_edit_def)
next
  assume "\<not> truthy (re_resolveId renv (if user = Undefined then re_client_user renv else user))"
  then show "ReactionUserManager_remove renv user ms = (Inl (LibError ''REACTION_RESOLVE_USER''), ms)"
    by (rule remove_unresolved)
next
  assume "typeof code = ''string'' \<and> truthy code \<and> \<not> truthy (ie_resolveInviteCode ienv code)"
  then show "GuildInviteManager_fetch ienv code ms = (Inl (LibError ''INVITE_RESOLVE_CODE''), ms)"
    by (simp add: fetch_string_unresolved)
next
  fix e assume "ClientPresence_parse env (ps_self s) p = Inl e"
  then show "ClientPresence_set env p s = (Inl e, s)" by (simp add: ClientPresence_set_def)
next
  fix packet assume a: "ClientPresence_parse env (ps_self s) p = Inr packet"
  show "ps_self (snd (ClientPresence_set env p s)) = Presence_patch (ps_self s) packet"
    using a
    by (cases "pd_shardID p")
       (simp_all add: ClientPresence_set_def send_to_def send_each_eq broadcast_def Let_def)
next
  fix packet assume a: "ClientPresence_parse env (ps_self s) p = Inr packet"
    and u: "unresolved_target (pd_shardID p) s"
  show "fst (ClientPresence_set env p s) = Inl NativeTypeError"
    using a u
    by (cases "pd_shardID p")
       (simp_all add: ClientPresence_set_def send_to_def send_each_eq unresolved_target_def Let_def)
qed

theorem local_state_on_resolution_failure_witness:
  "StageInstanceManager_create stage_env0 (Obj [(''topic'', Str ''t'')]) one_cached
     = (Inl (LibError ''STAGE_CHANNEL_RESOLVE''), one_cached)
   \<and> StageInstanceManager_edit stage_env0 Null (Obj [(''topic'', Str ''t'')]) one_cached
     = (Inl (LibError ''STAGE_CHANNEL_RESOLVE''), one_cached)
   \<and> ReactionUserManager_remove reaction_env0 (Num 7) one_cached
     = (Inl (LibError ''REACTION_RESOLVE_USER''), one_cached)
   \<and> GuildInviteManager_fetch invite_env0 (Str ''?'') one_cached
     = (Inl (LibError ''INVITE_RESOLVE_CODE''), one_cached)
   \<and> ClientPresence_set presence_env0 bad_activity presence_st0
     = (Inl (LibTypeError ''INVALID_TYPE'' ''activities[0].name'' ''string''), presence_st0)
   \<and> ps_self (snd (ClientPresence_set presence_env0 (idle_to (Arr [Num 0, Num 5])) presence_st0))
       ''status'' = Str ''idle''
   \<and> fst (ClientPresence_set presence_env0 (idle_to (Arr [Num 0, Num 5])) presence_st0)
       = Inl NativeTypeError"
proof -
  let ?o = "Obj [(''topic'', Str ''t'')]"
  have u: "unresolved_target (pd_shardID (idle_to (Arr [Num 0, Num 5]))) presence_st0"
    by (simp add: idle_target unresolved_target_def st0_fields)
  have h1: "typeof ?o = ''object'' \<and> \<not> nullish ?o
              \<and> \<not> truthy (se_resolveID stage_env0 (jsget ?o ''channel''))"
    by (simp add: stage_env0_def)
  have h2: "typeof ?o = ''object'' \<and> \<not> truthy (se_resolveID stage_env0 Null)"
    by (simp add: stage_env0_def)
  have h3: "\<not> truthy (re_resolveId reaction_env0
                      (if Num 7 = Undefined then re_client_user reaction_env0 else Num 7))"
    by (simp add: reaction_env0_def)
  have h4: "typeof (Str ''?'') = ''string'' \<and> truthy (Str ''?'')
              \<and> \<not> truthy (ie_resolveInviteCode invite_env0 (Str ''?''))"
    by (simp add: invite_env0_def is_code_char_def)
  note t1 = local_state_on_resolution_failure
              [of ?o stage_env0 one_cached Null reaction_env0 "Num 7" "Str ''?''" invite_env0
                  presence_env0 presence_st0 bad_activity]
  note t2 = local_state_on_resolution_failure
              [of ?o stage_env0 one_cached Null reaction_env0 "Num 7" "Str ''?''" invite_env0
                  presence_env0 presence_st0 "idle_to (Arr [Num 0, Num 5])"]
  from t1 h1 have a1: "StageInstanceManager_create stage_env0 ?o one_cached
     = (Inl (LibError ''STAGE_CHANNEL_RESOLVE''), one_cached)" by blast
  from t1 h2 have a2: "StageInstanceManager_edit stage_env0 Null ?o one_cached
     = (Inl (LibError ''STAGE_CHANNEL_RESOLVE''), one_cached)" by blast
  from t1 h3 have a3: "ReactionUserManager_remove reaction_env0 (Num 7) one_cached
     = (Inl (LibError ''REACTION_RESOLVE_USER''), one_cached)" by blast
  from t1 h4 have a4: "GuildInviteManager_fetch invite_env0 (Str ''?'') one_cached
     = (Inl (LibError ''INVITE_RESOLVE_CODE''), one_cached)" by blast
  from t1 bad_parse
  have a: "ClientPresence_set presence_env0 bad_activity presence_st0
     = (Inl (LibTypeError ''INVALID_TYPE'' ''activities[0].name'' ''string''), presence_st0)"
    by blast
  from t2 idle_parse [of "Arr [Num 0, Num 5]"] u
  have b: "ps_self (snd (ClientPresence_set presence_env0 (idle_to (Arr [Num 0, Num 5])) presence_st0))
             = Presence_patch (ps_self presence_st0) idle_packet"
    and c: "fst (ClientPresence_set presence_env0 (idle_to (Arr [Num 0, Num 5])) presence_st0)
             = Inl NativeTypeError"
    by blast+
  show ?thesis using a1 a2 a3 a4 a b c by (simp add: idle_patch)
qed

end
